theory Spec2Isabelle
  imports Main
begin

section \<open>Data model\<close>

text \<open>
  The records of \<^verbatim>\<open>metadata_store_pb2\<close> that
  \<^verbatim>\<open>tfx/orchestration/portable/execution_publish_utils.py\<close> reads and writes.
  Enumerations are datatypes; a message is a record; an optional scalar whose
  presence matters (an id that may not be assigned yet) is an \<open>option\<close>.
\<close>

datatype artifact_state = ARTIFACT_UNKNOWN | PENDING | LIVE | MARKED_FOR_DELETION | DELETED

datatype execution_state =
  EXECUTION_UNKNOWN | NEW | RUNNING | COMPLETE | FAILED | CACHED | CANCELED

datatype event_type =
  EVENT_UNKNOWN | DECLARED_OUTPUT | DECLARED_INPUT | INPUT | OUTPUT
  | INTERNAL_INPUT | INTERNAL_OUTPUT

datatype property_value = IntValue int | StringValue string

type_synonym properties = "(string \<times> property_value) list"

record mlmd_artifact =
  art_id :: "int option"
  art_type_id :: int
  art_uri :: string
  art_properties :: properties
  art_custom_properties :: properties
  art_state :: artifact_state

record execution_type =
  et_name :: string

record execution =
  exec_id :: "int option"
  exec_type :: execution_type
  exec_last_known_state :: execution_state
  exec_properties :: properties

record mlmd_context =
  ctx_id :: int
  ctx_name :: string

record event =
  ev_artifact_id :: int
  ev_execution_id :: int
  ev_type :: event_type

text \<open>
  A \<^verbatim>\<open>types.Artifact\<close> is a Python object that owns one
  \<^verbatim>\<open>metadata_store_pb2.Artifact\<close> message, reached through
  \<^verbatim>\<open>.mlmd_artifact\<close>; \<^verbatim>\<open>.type_id\<close> reads the \<^verbatim>\<open>type_id\<close>
  of that message. The code mutates the message in place, and the same object may be listed
  more than once, so an artifact object is an address and the messages live in a heap.
\<close>

type_synonym addr = nat

type_synonym heap = "addr \<Rightarrow> mlmd_artifact"

text \<open>
  \<^verbatim>\<open>MutableMapping[str, Sequence[types.Artifact]]\<close>: a dict, iterated in
  insertion order, so an association list from channel name to artifact objects.
\<close>

type_synonym artifact_map = "(string \<times> addr list) list"

text \<open>
  \<^verbatim>\<open>execution_result_pb2.ExecutorOutput\<close>: its \<^verbatim>\<open>output_artifacts\<close> field maps
  a channel name to an \<^verbatim>\<open>ArtifactList\<close> message whose \<^verbatim>\<open>artifacts\<close> field
  is a sequence of artifact messages (values, not objects of the skeleton).
\<close>

record artifact_list =
  artifacts :: "mlmd_artifact list"

record executor_output =
  eo_output_artifacts :: "(string \<times> artifact_list) list"

text \<open>
  The exceptions the module can raise. \<open>ValueError\<close> is what the unpacking
  \<^verbatim>\<open>[execution] = ...\<close> raises when the right-hand side does not hold exactly one
  element (the lookup failure of the specification). The three \<open>RuntimeError\<close>s are the
  explicit \<^verbatim>\<open>raise\<close> statements of \<^verbatim>\<open>publish_succeeded_execution\<close>; the
  first one formats the executor output and the output skeleton into its message, so it carries
  both.
\<close>

datatype runtime_error =
  MoreKeys executor_output artifact_map
  | PartialUpdate
  | TypeChanged

datatype error = ValueError | RuntimeError runtime_error

section \<open>The metadata store\<close>

text \<open>
  The state behind \<^verbatim>\<open>metadata_handler.store\<close>: the persisted executions,
  artifacts and events, the context associations of executions and the context attributions of
  artifacts (pairs of a context id and an execution or artifact id).
\<close>

record mlmd_store =
  store_executions :: "execution list"
  store_artifacts :: "mlmd_artifact list"
  store_events :: "event list"
  store_associations :: "(int \<times> int) list"
  store_attributions :: "(int \<times> int) list"

text \<open>
  \<^verbatim>\<open>store.get_executions_by_id(ids)\<close> returns the stored executions whose id is one of
  \<open>ids\<close>; an id with no record contributes nothing.
\<close>

definition get_executions_by_id :: "mlmd_store \<Rightarrow> int list \<Rightarrow> execution list" where
  "get_executions_by_id store ids =
     filter (\<lambda>e. case exec_id e of None \<Rightarrow> False | Some i \<Rightarrow> i \<in> set ids)
       (store_executions store)"

text \<open>The unpacking assignment \<^verbatim>\<open>[x] = xs\<close>.\<close>

definition unpack_single :: "'a list \<Rightarrow> error + 'a" where
  "unpack_single xs = (case xs of [x] \<Rightarrow> Inr x | _ \<Rightarrow> Inl ValueError)"

definition fresh_id :: "int list \<Rightarrow> int" where
  "fresh_id ids = foldr max ids 0 + 1"

definition execution_ids :: "execution list \<Rightarrow> int list" where
  "execution_ids es = concat (map (\<lambda>e. case exec_id e of None \<Rightarrow> [] | Some i \<Rightarrow> [i]) es)"

definition artifact_ids :: "mlmd_artifact list \<Rightarrow> int list" where
  "artifact_ids as = concat (map (\<lambda>a. case art_id a of None \<Rightarrow> [] | Some i \<Rightarrow> [i]) as)"

definition upsert_execution :: "execution list \<Rightarrow> execution \<Rightarrow> execution \<times> execution list" where
  "upsert_execution stored e =
     (case exec_id e of
        None \<Rightarrow>
          (let e' = e\<lparr>exec_id := Some (fresh_id (execution_ids stored))\<rparr>
           in (e', stored @ [e']))
      | Some i \<Rightarrow>
          if i \<in> set (execution_ids stored)
          then (e, map (\<lambda>x. if exec_id x = Some i then e else x) stored)
          else (e, stored @ [e]))"

definition upsert_artifact :: "mlmd_artifact list \<Rightarrow> mlmd_artifact \<Rightarrow> int \<times> mlmd_artifact list" where
  "upsert_artifact stored a =
     (case art_id a of
        None \<Rightarrow>
          (let i = fresh_id (artifact_ids stored)
           in (i, stored @ [a\<lparr>art_id := Some i\<rparr>]))
      | Some i \<Rightarrow>
          if i \<in> set (artifact_ids stored)
          then (i, map (\<lambda>x. if art_id x = Some i then a else x) stored)
          else (i, stored @ [a]))"

fun put_artifacts :: "mlmd_artifact list \<Rightarrow> mlmd_artifact list \<Rightarrow> int list \<times> mlmd_artifact list" where
  "put_artifacts stored [] = ([], stored)"
| "put_artifacts stored (a # as) =
     (case upsert_artifact stored a of
        (i, stored') \<Rightarrow>
          (case put_artifacts stored' as of
             (ids, stored'') \<Rightarrow> (i # ids, stored'')))"

text \<open>The artifact messages of a mapping, channel by channel, as the heap holds them.\<close>

definition artifacts_of :: "heap \<Rightarrow> artifact_map option \<Rightarrow> mlmd_artifact list" where
  "artifacts_of h m =
     (case m of None \<Rightarrow> [] | Some am \<Rightarrow> map h (concat (map snd am)))"

text \<open>
  Modelled from the spec: \<^verbatim>\<open>execution_lib.put_execution\<close> and
  \<^verbatim>\<open>execution_lib.prepare_execution\<close> are imported from
  \<^verbatim>\<open>tfx.orchestration.portable.mlmd\<close> and are not part of the source at hand.
  The specification describes the put as one durable unit that, given an execution, the
  contexts, optional input and output artifact mappings and an event type for the outputs,
  persists the execution (assigning an id when it has none), creates or updates the artifact
  records, links every input artifact with an \<open>INPUT\<close> event and every output artifact
  with an event of the given type, associates every context with the execution and with its
  input artifacts, and returns the persisted execution. The preparation builds a new
  execution record, without id, in the given state and with the given properties.
\<close>

definition put_execution ::
  "mlmd_store \<Rightarrow> heap \<Rightarrow> execution \<Rightarrow> mlmd_context list \<Rightarrow> artifact_map option
     \<Rightarrow> artifact_map option \<Rightarrow> event_type \<Rightarrow> execution \<times> mlmd_store" where
  "put_execution store h execution contexts input_artifacts output_artifacts output_event_type =
     (case upsert_execution (store_executions store) execution of
        (execution', executions') \<Rightarrow>
     (case put_artifacts (store_artifacts store) (artifacts_of h input_artifacts) of
        (input_ids, artifacts') \<Rightarrow>
     (case put_artifacts artifacts' (artifacts_of h output_artifacts) of
        (output_ids, artifacts'') \<Rightarrow>
       (let eid = (case exec_id execution' of None \<Rightarrow> 0 | Some i \<Rightarrow> i);
            cids = map ctx_id contexts
        in (execution',
            \<lparr>store_executions = executions',
             store_artifacts = artifacts'',
             store_events = store_events store
               @ map (\<lambda>a. \<lparr>ev_artifact_id = a, ev_execution_id = eid, ev_type = INPUT\<rparr>)
                   input_ids
               @ map (\<lambda>a. \<lparr>ev_artifact_id = a, ev_execution_id = eid,
                            ev_type = output_event_type\<rparr>) output_ids,
             store_associations = store_associations store @ map (\<lambda>c. (c, eid)) cids,
             store_attributions = store_attributions store
               @ concat (map (\<lambda>c. map (\<lambda>a. (c, a)) input_ids) cids)\<rparr>)))))"

definition prepare_execution ::
  "execution_type \<Rightarrow> execution_state \<Rightarrow> properties option \<Rightarrow> execution" where
  "prepare_execution et st exec_props =
     \<lparr>exec_id = None, exec_type = et, exec_last_known_state = st,
      exec_properties = (case exec_props of None \<Rightarrow> [] | Some ps \<Rightarrow> ps)\<rparr>"

section \<open>execution\_publish\_utils\<close>

text \<open>
  Every operation takes the store and the heap of artifact objects and returns what it
  raised or returned together with the state it leaves behind.
\<close>

definition publish_cached_execution ::
  "mlmd_store \<Rightarrow> heap \<Rightarrow> mlmd_context list \<Rightarrow> int \<Rightarrow> artifact_map option
     \<Rightarrow> (error + unit) \<times> mlmd_store" where
  "publish_cached_execution store h contexts execution_id output_artifacts =
     (case unpack_single (get_executions_by_id store [execution_id]) of
        Inl e \<Rightarrow> (Inl e, store)
      | Inr execution \<Rightarrow>
          (Inr (),
           snd (put_execution store h (execution\<lparr>exec_last_known_state := CACHED\<rparr>)
                  contexts None output_artifacts OUTPUT)))"

text \<open>
  The inner loop of the merge, lines 100 to 103: over the zipped pairs, compare the type ids
  and copy the reported message over the one the artifact object owns.
  \<^verbatim>\<open>CopyFrom\<close> clears the target and takes every field of its argument.
\<close>

fun merge_artifacts :: "heap \<Rightarrow> (addr \<times> mlmd_artifact) list \<Rightarrow> (error + unit) \<times> heap" where
  "merge_artifacts h [] = (Inr (), h)"
| "merge_artifacts h ((original, updated) # rest) =
     (if art_type_id (h original) \<noteq> art_type_id updated
      then (Inl (RuntimeError TypeChanged), h)
      else merge_artifacts (h(original := updated)) rest)"

text \<open>The outer loop, lines 92 to 103, over the items of the skeleton.\<close>

fun merge_channels ::
  "heap \<Rightarrow> executor_output \<Rightarrow> artifact_map \<Rightarrow> (error + unit) \<times> heap" where
  "merge_channels h eo [] = (Inr (), h)"
| "merge_channels h eo ((key, artifact_list) # rest) =
     (case map_of (eo_output_artifacts eo) key of
        None \<Rightarrow> merge_channels h eo rest
      | Some updated \<Rightarrow>
          (let updated_artifact_list = artifacts updated
           in if length artifact_list \<noteq> length updated_artifact_list
              then (Inl (RuntimeError PartialUpdate), h)
              else (case merge_artifacts h (zip artifact_list updated_artifact_list) of
                      (Inl e, h') \<Rightarrow> (Inl e, h')
                    | (Inr u, h') \<Rightarrow> merge_channels h' eo rest)))"

text \<open>Lines 86 to 103: the subset check, then the loops.\<close>

definition merge_executor_output ::
  "heap \<Rightarrow> executor_output option \<Rightarrow> artifact_map \<Rightarrow> (error + unit) \<times> heap" where
  "merge_executor_output h executor_output output_artifacts =
     (case executor_output of
        None \<Rightarrow> (Inr (), h)
      | Some eo \<Rightarrow>
          if \<not> set (map fst (eo_output_artifacts eo)) \<subseteq> set (map fst output_artifacts)
          then (Inl (RuntimeError (MoreKeys eo output_artifacts)), h)
          else merge_channels h eo output_artifacts)"

text \<open>Lines 106 to 108: every artifact of every channel is marked \<open>LIVE\<close>.\<close>

definition mark_live :: "heap \<Rightarrow> artifact_map \<Rightarrow> heap" where
  "mark_live h output_artifacts =
     fold (\<lambda>artifact_list h'.
             fold (\<lambda>artifact h''. h''(artifact := (h'' artifact)\<lparr>art_state := LIVE\<rparr>))
               artifact_list h')
       (map snd output_artifacts) h"

definition publish_succeeded_execution ::
  "mlmd_store \<Rightarrow> heap \<Rightarrow> int \<Rightarrow> mlmd_context list \<Rightarrow> artifact_map option
     \<Rightarrow> executor_output option \<Rightarrow> (error + unit) \<times> heap \<times> mlmd_store" where
  "publish_succeeded_execution store h execution_id contexts output_artifacts executor_output =
     (let output_artifacts = (case output_artifacts of None \<Rightarrow> [] | Some m \<Rightarrow> m)
      in case merge_executor_output h executor_output output_artifacts of
           (Inl e, h') \<Rightarrow> (Inl e, h', store)
         | (Inr u, h') \<Rightarrow>
             (let h'' = mark_live h' output_artifacts
              in case unpack_single (get_executions_by_id store [execution_id]) of
                   Inl e \<Rightarrow> (Inl e, h'', store)
                 | Inr execution \<Rightarrow>
                     (Inr (), h'',
                      snd (put_execution store h''
                             (execution\<lparr>exec_last_known_state := COMPLETE\<rparr>)
                             contexts None (Some output_artifacts) OUTPUT))))"

definition publish_failed_execution ::
  "mlmd_store \<Rightarrow> heap \<Rightarrow> mlmd_context list \<Rightarrow> int \<Rightarrow> (error + unit) \<times> mlmd_store" where
  "publish_failed_execution store h contexts execution_id =
     (case unpack_single (get_executions_by_id store [execution_id]) of
        Inl e \<Rightarrow> (Inl e, store)
      | Inr execution \<Rightarrow>
          (Inr (),
           snd (put_execution store h (execution\<lparr>exec_last_known_state := FAILED\<rparr>)
                  contexts None None OUTPUT)))"

definition publish_internal_execution ::
  "mlmd_store \<Rightarrow> heap \<Rightarrow> mlmd_context list \<Rightarrow> int \<Rightarrow> artifact_map option
     \<Rightarrow> (error + unit) \<times> mlmd_store" where
  "publish_internal_execution store h contexts execution_id output_artifacts =
     (case unpack_single (get_executions_by_id store [execution_id]) of
        Inl e \<Rightarrow> (Inl e, store)
      | Inr execution \<Rightarrow>
          (Inr (),
           snd (put_execution store h (execution\<lparr>exec_last_known_state := COMPLETE\<rparr>)
                  contexts None output_artifacts INTERNAL_OUTPUT)))"

definition register_execution ::
  "mlmd_store \<Rightarrow> heap \<Rightarrow> execution_type \<Rightarrow> mlmd_context list \<Rightarrow> artifact_map option
     \<Rightarrow> properties option \<Rightarrow> execution \<times> mlmd_store" where
  "register_execution store h execution_type contexts input_artifacts exec_props =
     (let execution = prepare_execution execution_type RUNNING exec_props
      in put_execution store h execution contexts input_artifacts None OUTPUT)"

section \<open>Predicates and scenarios used by the statements\<close>

text \<open>
  The comparison of line 101 over a list of zipped pairs, as a predicate: every pair has equal
  type ids.
\<close>

definition pairs_match :: "heap \<Rightarrow> (addr \<times> mlmd_artifact) list \<Rightarrow> bool" where
  "pairs_match h ps =
     list_all (\<lambda>(original, updated). art_type_id (h original) = art_type_id updated) ps"

text \<open>
  The checks of lines 93 to 102 for one item of the skeleton, as a predicate: the channel is
  not reported, or it is reported with as many artifacts as the skeleton lists and every
  positional pair has equal type ids.
\<close>

definition channel_passes :: "heap \<Rightarrow> executor_output \<Rightarrow> string \<times> addr list \<Rightarrow> bool" where
  "channel_passes h eo ch =
     (case map_of (eo_output_artifacts eo) (fst ch) of
        None \<Rightarrow> True
      | Some updated \<Rightarrow>
          length (snd ch) = length (artifacts updated)
          \<and> pairs_match h (zip (snd ch) (artifacts updated)))"

text \<open>The artifact objects a mapping lists, over all channels.\<close>

definition artifact_objects :: "artifact_map \<Rightarrow> addr list" where
  "artifact_objects m = concat (map snd m)"

text \<open>
  The comparison of line 101 for one pair, against the messages of a heap.
\<close>

definition type_kept :: "heap \<Rightarrow> addr \<times> mlmd_artifact \<Rightarrow> bool" where
  "type_kept h p = (art_type_id (h (fst p)) = art_type_id (snd p))"

text \<open>
  The pairs the merge visits when every check passes: channel by channel in the order of the
  skeleton, for each reported channel the skeleton's artifacts zipped with the reported
  messages.
\<close>

definition reported_pairs ::
  "executor_output \<Rightarrow> artifact_map \<Rightarrow> (addr \<times> mlmd_artifact) list" where
  "reported_pairs eo m =
     concat (map (\<lambda>ch. case map_of (eo_output_artifacts eo) (fst ch) of
                          None \<Rightarrow> []
                        | Some updated \<Rightarrow> zip (snd ch) (artifacts updated)) m)"

text \<open>
  The pairs of one channel that have been copied when the channel is left, by a raise or not:
  none for a channel that is not reported or has the wrong length, otherwise the pairs before
  the first one whose type ids differ.
\<close>

definition copied_pairs ::
  "heap \<Rightarrow> executor_output \<Rightarrow> string \<times> addr list \<Rightarrow> (addr \<times> mlmd_artifact) list" where
  "copied_pairs h eo ch =
     (case map_of (eo_output_artifacts eo) (fst ch) of
        None \<Rightarrow> []
      | Some updated \<Rightarrow>
          if length (snd ch) \<noteq> length (artifacts updated) then []
          else takeWhile (type_kept h) (zip (snd ch) (artifacts updated)))"

text \<open>
  What a sequence of copies leaves: an object holds the message of the last pair that names
  it, and its own message when no pair does.
\<close>

definition overwrite :: "heap \<Rightarrow> (addr \<times> mlmd_artifact) list \<Rightarrow> heap" where
  "overwrite h ps = (\<lambda>a. case map_of (rev ps) a of None \<Rightarrow> h a | Some updated \<Rightarrow> updated)"

text \<open>
  Concrete inputs in the shape of the specification's scenarios: one stored execution with
  id 1 in state \<open>RUNNING\<close>, and a heap whose objects 0 and 1 are pending skeleton
  artifacts of type 5, the first of which already has the store id 7.
\<close>

definition example_artifact ::
  "int option \<Rightarrow> int \<Rightarrow> string \<Rightarrow> artifact_state \<Rightarrow> mlmd_artifact" where
  "example_artifact i t u s =
     \<lparr>art_id = i, art_type_id = t, art_uri = u, art_properties = [],
      art_custom_properties = [], art_state = s\<rparr>"

definition scenario_heap :: heap where
  "scenario_heap =
     (\<lambda>a. if a = 0 then example_artifact (Some 7) 5 ''/tmp/m1'' PENDING
          else if a = 1 then example_artifact None 5 ''/tmp/m2'' PENDING
          else example_artifact None 6 [] ARTIFACT_UNKNOWN)"

definition scenario_store :: mlmd_store where
  "scenario_store =
     \<lparr>store_executions =
        [\<lparr>exec_id = Some 1, exec_type = \<lparr>et_name = ''Trainer''\<rparr>,
          exec_last_known_state = RUNNING, exec_properties = []\<rparr>],
      store_artifacts = [], store_events = [], store_associations = [],
      store_attributions = []\<rparr>"

definition scenario_contexts :: "mlmd_context list" where
  "scenario_contexts = [\<lparr>ctx_id = 10, ctx_name = ''run''\<rparr>]"

definition scenario_report :: "string \<Rightarrow> mlmd_artifact list \<Rightarrow> executor_output" where
  "scenario_report key us = \<lparr>eo_output_artifacts = [(key, \<lparr>artifacts = us\<rparr>)]\<rparr>"

definition scenario_two_channels :: executor_output where
  "scenario_two_channels =
     \<lparr>eo_output_artifacts =
        [(''a'', \<lparr>artifacts = [example_artifact None 5 ''gs://a'' ARTIFACT_UNKNOWN]\<rparr>),
         (''b'', \<lparr>artifacts = [example_artifact None 5 ''gs://b'' LIVE]\<rparr>)]\<rparr>"

section \<open>Evaluation rules and basic facts\<close>

lemmas scenario_defs = example_artifact_def scenario_heap_def scenario_store_def
  scenario_contexts_def scenario_report_def

lemmas publish_defs = publish_succeeded_execution_def publish_cached_execution_def
  publish_failed_execution_def publish_internal_execution_def register_execution_def
  prepare_execution_def merge_executor_output_def mark_live_def
  unpack_single_def get_executions_by_id_def put_execution_def upsert_execution_def
  upsert_artifact_def artifacts_of_def fresh_id_def execution_ids_def artifact_ids_def
  pairs_match_def channel_passes_def artifact_objects_def

lemma unpack_single_error: "unpack_single xs = Inl e \<Longrightarrow> e = ValueError"
  by (auto simp: unpack_single_def split: list.splits)

lemma unpack_single_Inr: "unpack_single xs = Inr x \<longleftrightarrow> xs = [x]"
  by (auto simp: unpack_single_def split: list.splits)

lemma unpack_single_Inl: "unpack_single xs = Inl e \<longleftrightarrow> length xs \<noteq> 1 \<and> e = ValueError"
  by (cases xs; cases "tl xs") (auto simp: unpack_single_def split: list.splits)

subsection \<open>The merge loops\<close>

lemma merge_artifacts_Cons_eq:
  "art_type_id (h original) = art_type_id updated \<Longrightarrow> h1 = h(original := updated)
     \<Longrightarrow> merge_artifacts h ((original, updated) # rest) = merge_artifacts h1 rest"
  by simp

lemma merge_artifacts_Cons_neq:
  "art_type_id (h original) \<noteq> art_type_id updated
     \<Longrightarrow> merge_artifacts h ((original, updated) # rest) = (Inl (RuntimeError TypeChanged), h)"
  by simp

lemma pairs_match_cong:
  "(\<And>a. art_type_id (h1 a) = art_type_id (h2 a)) \<Longrightarrow> pairs_match h1 ps = pairs_match h2 ps"
  by (simp add: pairs_match_def)

lemma pairs_match_Cons:
  "pairs_match h ((original, updated) # rest)
     \<longleftrightarrow> art_type_id (h original) = art_type_id updated \<and> pairs_match h rest"
  by (simp add: pairs_match_def)

lemma merge_artifacts_type_id:
  "art_type_id (snd (merge_artifacts h ps) a) = art_type_id (h a)"
proof (induction ps arbitrary: h)
  case Nil
  show ?case by simp
next
  case (Cons p rest)
  obtain original updated where p: "p = (original, updated)" by (cases p)
  show ?case
  proof (cases "art_type_id (h original) = art_type_id updated")
    case True
    define h1 where "h1 = h(original := updated)"
    have ty: "art_type_id (h1 a) = art_type_id (h a)" using True by (simp add: h1_def)
    have "merge_artifacts h (p # rest) = merge_artifacts h1 rest"
      unfolding p using True h1_def by (rule merge_artifacts_Cons_eq)
    with Cons.IH [of h1] ty show ?thesis by simp
  next
    case False
    with p show ?thesis by simp
  qed
qed

lemma merge_artifacts_frame:
  "a \<notin> fst ` set ps \<Longrightarrow> snd (merge_artifacts h ps) a = h a"
proof (induction ps arbitrary: h)
  case Nil
  show ?case by simp
next
  case (Cons p rest)
  obtain original updated where p: "p = (original, updated)" by (cases p)
  from Cons.prems p have ne: "a \<noteq> original" and nin: "a \<notin> fst ` set rest" by auto
  show ?case
  proof (cases "art_type_id (h original) = art_type_id updated")
    case True
    define h1 where "h1 = h(original := updated)"
    have fr: "h1 a = h a" using ne by (simp add: h1_def)
    have "merge_artifacts h (p # rest) = merge_artifacts h1 rest"
      unfolding p using True h1_def by (rule merge_artifacts_Cons_eq)
    with Cons.IH [OF nin, of h1] fr show ?thesis by simp
  next
    case False
    with p show ?thesis by simp
  qed
qed

lemma merge_artifacts_result:
  "fst (merge_artifacts h ps)
     = (if pairs_match h ps then Inr () else Inl (RuntimeError TypeChanged))"
proof (induction ps arbitrary: h)
  case Nil
  show ?case by (simp add: pairs_match_def)
next
  case (Cons p rest)
  obtain original updated where p: "p = (original, updated)" by (cases p)
  show ?case
  proof (cases "art_type_id (h original) = art_type_id updated")
    case True
    define h1 where "h1 = h(original := updated)"
    have "\<And>a. art_type_id (h1 a) = art_type_id (h a)" using True by (simp add: h1_def)
    then have pm: "pairs_match h1 rest = pairs_match h rest" by (rule pairs_match_cong)
    have "merge_artifacts h (p # rest) = merge_artifacts h1 rest"
      unfolding p using True h1_def by (rule merge_artifacts_Cons_eq)
    with Cons.IH [of h1] pm True p show ?thesis by (simp add: pairs_match_Cons)
  next
    case False
    with p show ?thesis by (simp add: pairs_match_Cons)
  qed
qed

lemma merge_artifacts_append:
  "merge_artifacts h (qs @ rs)
     = (case merge_artifacts h qs of
          (Inl e, h') \<Rightarrow> (Inl e, h')
        | (Inr u, h') \<Rightarrow> merge_artifacts h' rs)"
proof (induction qs arbitrary: h)
  case Nil
  show ?case by simp
next
  case (Cons p rest)
  obtain original updated where p: "p = (original, updated)" by (cases p)
  show ?case
  proof (cases "art_type_id (h original) = art_type_id updated")
    case True
    define h1 where "h1 = h(original := updated)"
    have a: "merge_artifacts h (p # rest) = merge_artifacts h1 rest"
      unfolding p using True h1_def by (rule merge_artifacts_Cons_eq)
    have b: "merge_artifacts h ((p # rest) @ rs) = merge_artifacts h1 (rest @ rs)"
      unfolding p append_Cons using True h1_def by (rule merge_artifacts_Cons_eq)
    show ?thesis unfolding a b by (rule Cons.IH)
  next
    case False
    with p show ?thesis by simp
  qed
qed

lemma merge_artifacts_stops:
  assumes "pairs_match h qs" and "art_type_id (h a) \<noteq> art_type_id u"
  shows "merge_artifacts h (qs @ (a, u) # rs)
           = (Inl (RuntimeError TypeChanged), snd (merge_artifacts h qs))"
proof -
  obtain r h' where m: "merge_artifacts h qs = (r, h')" by (cases "merge_artifacts h qs")
  with assms(1) merge_artifacts_result [of h qs] have r: "r = Inr ()" by simp
  have "art_type_id (h' a) = art_type_id (h a)"
    using merge_artifacts_type_id [of h qs a] m by simp
  with assms(2) have "merge_artifacts h' ((a, u) # rs) = (Inl (RuntimeError TypeChanged), h')"
    by (simp add: merge_artifacts_Cons_neq)
  with m r show ?thesis by (simp add: merge_artifacts_append)
qed

subsection \<open>Marking\<close>

lemma mark_live_inner:
  "fold (\<lambda>artifact h''. h''(artifact := (h'' artifact)\<lparr>art_state := LIVE\<rparr>)) as h
     = (\<lambda>a. if a \<in> set as then (h a)\<lparr>art_state := LIVE\<rparr> else h a)"
  by (induction as arbitrary: h) (auto simp: fun_eq_iff)

lemma mark_live_eq:
  "mark_live h m
     = (\<lambda>a. if a \<in> set (artifact_objects m) then (h a)\<lparr>art_state := LIVE\<rparr> else h a)"
  unfolding mark_live_def artifact_objects_def
  by (induction m arbitrary: h) (auto simp: fun_eq_iff mark_live_inner)

subsection \<open>The channel loop\<close>

lemma channel_passes_cong:
  "(\<And>a. art_type_id (h1 a) = art_type_id (h2 a))
     \<Longrightarrow> channel_passes h1 eo ch = channel_passes h2 eo ch"
  by (simp add: channel_passes_def pairs_match_cong [of h1 h2] split: option.splits)

lemma merge_channels_unreported:
  "map_of (eo_output_artifacts eo) key = None
     \<Longrightarrow> merge_channels h eo ((key, artifact_list) # rest) = merge_channels h eo rest"
  by simp

lemma merge_channels_partial:
  "map_of (eo_output_artifacts eo) key = Some updated
     \<Longrightarrow> length artifact_list \<noteq> length (artifacts updated)
     \<Longrightarrow> merge_channels h eo ((key, artifact_list) # rest)
           = (Inl (RuntimeError PartialUpdate), h)"
  by simp

lemma merge_channels_reported:
  "map_of (eo_output_artifacts eo) key = Some updated
     \<Longrightarrow> length artifact_list = length (artifacts updated)
     \<Longrightarrow> merge_artifacts h (zip artifact_list (artifacts updated)) = (r, h1)
     \<Longrightarrow> merge_channels h eo ((key, artifact_list) # rest)
           = (case r of Inl e \<Rightarrow> (Inl e, h1) | Inr u \<Rightarrow> merge_channels h1 eo rest)"
  by (cases r) simp_all

lemma merge_channels_type_id:
  "art_type_id (snd (merge_channels h eo m) a) = art_type_id (h a)"
proof (induction m arbitrary: h)
  case Nil
  show ?case by simp
next
  case (Cons ch m)
  obtain key artifact_list where ch: "ch = (key, artifact_list)" by (cases ch)
  show ?case
  proof (cases "map_of (eo_output_artifacts eo) key")
    case None
    with ch Cons show ?thesis by simp
  next
    case (Some updated)
    show ?thesis
    proof (cases "length artifact_list = length (artifacts updated)")
      case False
      with Some ch show ?thesis by simp
    next
      case True
      obtain r h1 where ma: "merge_artifacts h (zip artifact_list (artifacts updated)) = (r, h1)"
        by (cases "merge_artifacts h (zip artifact_list (artifacts updated))")
      have ty: "art_type_id (h1 a) = art_type_id (h a)"
        using merge_artifacts_type_id [of h "zip artifact_list (artifacts updated)" a] ma
        by simp
      have "merge_channels h eo (ch # m)
              = (case r of Inl e \<Rightarrow> (Inl e, h1) | Inr u \<Rightarrow> merge_channels h1 eo m)"
        unfolding ch using Some True ma by (rule merge_channels_reported)
      with ty Cons [of h1] show ?thesis by (cases r) simp_all
    qed
  qed
qed

lemma merge_channels_frame:
  "a \<notin> set (artifact_objects m) \<Longrightarrow> snd (merge_channels h eo m) a = h a"
proof (induction m arbitrary: h)
  case Nil
  show ?case by simp
next
  case (Cons ch m)
  obtain key artifact_list where ch: "ch = (key, artifact_list)" by (cases ch)
  from Cons.prems ch have a1: "a \<notin> set artifact_list" and a2: "a \<notin> set (artifact_objects m)"
    by (simp_all add: artifact_objects_def)
  show ?case
  proof (cases "map_of (eo_output_artifacts eo) key")
    case None
    with ch Cons.IH [OF a2] show ?thesis by simp
  next
    case (Some updated)
    show ?thesis
    proof (cases "length artifact_list = length (artifacts updated)")
      case False
      with Some ch show ?thesis by simp
    next
      case True
      obtain r h1 where ma: "merge_artifacts h (zip artifact_list (artifacts updated)) = (r, h1)"
        by (cases "merge_artifacts h (zip artifact_list (artifacts updated))")
      from a1 have "a \<notin> fst ` set (zip artifact_list (artifacts updated))"
        by (auto dest: set_zip_leftD)
      then have fr: "h1 a = h a"
        using merge_artifacts_frame [of a "zip artifact_list (artifacts updated)" h] ma
        by simp
      have "merge_channels h eo (ch # m)
              = (case r of Inl e \<Rightarrow> (Inl e, h1) | Inr u \<Rightarrow> merge_channels h1 eo m)"
        unfolding ch using Some True ma by (rule merge_channels_reported)
      with fr Cons.IH [OF a2, of h1] show ?thesis by (cases r) simp_all
    qed
  qed
qed

lemma merge_channels_append:
  "merge_channels h eo (pre @ rest)
     = (case merge_channels h eo pre of
          (Inl e, h') \<Rightarrow> (Inl e, h')
        | (Inr u, h') \<Rightarrow> merge_channels h' eo rest)"
proof (induction pre arbitrary: h)
  case Nil
  show ?case by simp
next
  case (Cons ch pre)
  obtain key artifact_list where ch: "ch = (key, artifact_list)" by (cases ch)
  show ?case
  proof (cases "map_of (eo_output_artifacts eo) key")
    case None
    with ch Cons show ?thesis by simp
  next
    case (Some updated)
    show ?thesis
    proof (cases "length artifact_list = length (artifacts updated)")
      case False
      with Some ch show ?thesis by simp
    next
      case True
      obtain r h1 where ma: "merge_artifacts h (zip artifact_list (artifacts updated)) = (r, h1)"
        by (cases "merge_artifacts h (zip artifact_list (artifacts updated))")
      have a: "merge_channels h eo (ch # pre)
              = (case r of Inl e \<Rightarrow> (Inl e, h1) | Inr u \<Rightarrow> merge_channels h1 eo pre)"
        unfolding ch using Some True ma by (rule merge_channels_reported)
      have b: "merge_channels h eo ((ch # pre) @ rest)
              = (case r of Inl e \<Rightarrow> (Inl e, h1) | Inr u \<Rightarrow> merge_channels h1 eo (pre @ rest))"
        unfolding ch append_Cons using Some True ma by (rule merge_channels_reported)
      show ?thesis unfolding a b using Cons [of h1] by (cases r) simp_all
    qed
  qed
qed

lemma merge_channels_single:
  "fst (merge_channels h eo [ch])
     = (if channel_passes h eo ch then Inr ()
        else case map_of (eo_output_artifacts eo) (fst ch) of
               None \<Rightarrow> Inr ()
             | Some updated \<Rightarrow>
                 if length (snd ch) \<noteq> length (artifacts updated)
                 then Inl (RuntimeError PartialUpdate) else Inl (RuntimeError TypeChanged))"
proof -
  obtain key artifact_list where ch: "ch = (key, artifact_list)" by (cases ch)
  show ?thesis
  proof (cases "map_of (eo_output_artifacts eo) key")
    case None
    with ch show ?thesis by (simp add: channel_passes_def)
  next
    case (Some updated)
    show ?thesis
    proof (cases "length artifact_list = length (artifacts updated)")
      case False
      with Some ch show ?thesis by (simp add: channel_passes_def)
    next
      case True
      let ?ps = "zip artifact_list (artifacts updated)"
      obtain r h1 where ma: "merge_artifacts h ?ps = (r, h1)"
        by (cases "merge_artifacts h ?ps")
      have r: "r = (if pairs_match h ?ps then Inr () else Inl (RuntimeError TypeChanged))"
        using merge_artifacts_result [of h ?ps] ma by simp
      have "merge_channels h eo [ch]
              = (case r of Inl e \<Rightarrow> (Inl e, h1) | Inr u \<Rightarrow> merge_channels h1 eo [])"
        unfolding ch using Some True ma by (rule merge_channels_reported)
      with r Some True ch show ?thesis by (simp add: channel_passes_def)
    qed
  qed
qed

lemma merge_channels_result:
  "fst (merge_channels h eo m) = Inr () \<longleftrightarrow> list_all (channel_passes h eo) m"
proof (induction m arbitrary: h)
  case Nil
  show ?case by simp
next
  case (Cons ch m)
  obtain r h1 where one: "merge_channels h eo [ch] = (r, h1)"
    by (cases "merge_channels h eo [ch]")
  have ty: "\<And>a. art_type_id (h1 a) = art_type_id (h a)"
    using merge_channels_type_id [of h eo "[ch]"] one by simp
  have "channel_passes h1 eo = channel_passes h eo"
    by (rule ext, rule channel_passes_cong, rule ty)
  then have pm: "list_all (channel_passes h1 eo) m = list_all (channel_passes h eo) m"
    by simp
  have r: "r = Inr () \<longleftrightarrow> channel_passes h eo ch"
    using merge_channels_single [of h eo ch] one
    by (auto simp: channel_passes_def split: option.splits if_splits)
  have "merge_channels h eo (ch # m)
          = (case merge_channels h eo [ch] of
               (Inl e, h') \<Rightarrow> (Inl e, h') | (Inr u, h') \<Rightarrow> merge_channels h' eo m)"
    using merge_channels_append [of h eo "[ch]" m] by simp
  with one r pm Cons [of h1] show ?case by (cases r) auto
qed

lemma merge_channels_first_failure:
  assumes "list_all (channel_passes h eo) pre" and "\<not> channel_passes h eo ch"
  shows "fst (merge_channels h eo (pre @ ch # post)) = fst (merge_channels h eo [ch])"
    and "fst (merge_channels h eo [ch]) \<noteq> Inr ()"
proof -
  obtain r h1 where p: "merge_channels h eo pre = (r, h1)"
    by (cases "merge_channels h eo pre")
  with assms(1) merge_channels_result [of h eo pre] have r: "r = Inr ()" by simp
  have ty: "\<And>a. art_type_id (h1 a) = art_type_id (h a)"
    using merge_channels_type_id [of h eo pre] p by simp
  have cp: "channel_passes h1 eo ch = channel_passes h eo ch"
    by (rule channel_passes_cong, rule ty)
  obtain r2 h2 where one: "merge_channels h1 eo [ch] = (r2, h2)"
    by (cases "merge_channels h1 eo [ch]")
  have s1: "fst (merge_channels h1 eo [ch]) = fst (merge_channels h eo [ch])"
    unfolding merge_channels_single cp ..
  show nr: "fst (merge_channels h eo [ch]) \<noteq> Inr ()"
    using merge_channels_result [of h eo "[ch]"] assms(2) by simp
  with s1 one have "r2 \<noteq> Inr ()" by simp
  then obtain e where e: "r2 = Inl e" by (cases r2) auto
  have "merge_channels h1 eo (ch # post) = (Inl e, h2)"
    using merge_channels_append [of h1 eo "[ch]" post] one e by simp
  with p r have "fst (merge_channels h eo (pre @ ch # post)) = Inl e"
    by (simp add: merge_channels_append [of h eo pre])
  with s1 one e show "fst (merge_channels h eo (pre @ ch # post)) = fst (merge_channels h eo [ch])"
    by simp
qed

subsection \<open>The whole operation\<close>

lemma merge_channels_error_kind:
  assumes "fst (merge_channels h eo m) = Inl e"
  shows "e = RuntimeError PartialUpdate \<or> e = RuntimeError TypeChanged"
  using assms
proof (induction m arbitrary: h)
  case Nil
  then show ?case by simp
next
  case (Cons ch m)
  obtain r h1 where one: "merge_channels h eo [ch] = (r, h1)"
    by (cases "merge_channels h eo [ch]")
  have app: "merge_channels h eo (ch # m)
          = (case merge_channels h eo [ch] of
               (Inl e, h') \<Rightarrow> (Inl e, h') | (Inr u, h') \<Rightarrow> merge_channels h' eo m)"
    using merge_channels_append [of h eo "[ch]" m] by simp
  show ?case
  proof (cases r)
    case (Inl e')
    with app one Cons.prems have "e' = e" by simp
    with Inl one merge_channels_single [of h eo ch] show ?thesis
      by (auto split: option.splits if_splits)
  next
    case (Inr u)
    with app one Cons.prems have "fst (merge_channels h1 eo m) = Inl e" by simp
    then show ?thesis by (rule Cons.IH)
  qed
qed

lemma merge_executor_output_error_kind:
  assumes "fst (merge_executor_output h executor_output m) = Inl e"
  shows "\<exists>k. e = RuntimeError k"
proof (cases executor_output)
  case None
  with assms show ?thesis by (simp add: merge_executor_output_def)
next
  case (Some eo)
  show ?thesis
  proof (cases "set (map fst (eo_output_artifacts eo)) \<subseteq> set (map fst m)")
    case True
    with Some assms have "fst (merge_channels h eo m) = Inl e"
      by (simp add: merge_executor_output_def)
    then show ?thesis by (auto dest: merge_channels_error_kind)
  next
    case False
    with Some assms show ?thesis by (auto simp: merge_executor_output_def)
  qed
qed

lemma publish_succeeded_merge_error:
  assumes "fst (merge_executor_output h executor_output
                  (case output_artifacts of None \<Rightarrow> [] | Some m \<Rightarrow> m)) = Inl e"
  shows "publish_succeeded_execution store h execution_id contexts output_artifacts
           executor_output
         = (Inl e,
            snd (merge_executor_output h executor_output
                   (case output_artifacts of None \<Rightarrow> [] | Some m \<Rightarrow> m)),
            store)"
  using assms
  by (cases "merge_executor_output h executor_output
               (case output_artifacts of None \<Rightarrow> [] | Some m \<Rightarrow> m)")
     (simp add: publish_succeeded_execution_def)

lemma publish_succeeded_merge_ok:
  assumes "fst (merge_executor_output h executor_output
                  (case output_artifacts of None \<Rightarrow> [] | Some m \<Rightarrow> m)) = Inr ()"
  shows "fst (snd (publish_succeeded_execution store h execution_id contexts output_artifacts
           executor_output))
         = mark_live (snd (merge_executor_output h executor_output
                             (case output_artifacts of None \<Rightarrow> [] | Some m \<Rightarrow> m)))
             (case output_artifacts of None \<Rightarrow> [] | Some m \<Rightarrow> m)"
  using assms
  by (cases "merge_executor_output h executor_output
               (case output_artifacts of None \<Rightarrow> [] | Some m \<Rightarrow> m)")
     (simp add: publish_succeeded_execution_def Let_def split: sum.splits)

lemma publish_succeeded_Inr:
  assumes "fst (publish_succeeded_execution store h execution_id contexts output_artifacts
                  executor_output) = Inr ()"
  shows "fst (merge_executor_output h executor_output
                (case output_artifacts of None \<Rightarrow> [] | Some m \<Rightarrow> m)) = Inr ()"
  using assms
  by (cases "merge_executor_output h executor_output
               (case output_artifacts of None \<Rightarrow> [] | Some m \<Rightarrow> m)")
     (auto simp: publish_succeeded_execution_def Let_def split: sum.splits)

lemma channel_fails_reported:
  assumes "map_of (eo_output_artifacts eo) key = Some updated"
    and "length artifact_list \<noteq> length (artifacts updated)
         \<or> (\<exists>i. i < length artifact_list \<and> i < length (artifacts updated)
                \<and> art_type_id (h (artifact_list ! i)) \<noteq> art_type_id (artifacts updated ! i))"
  shows "\<not> channel_passes h eo (key, artifact_list)"
proof
  assume cp: "channel_passes h eo (key, artifact_list)"
  with assms(1) have len: "length artifact_list = length (artifacts updated)"
    and pm: "pairs_match h (zip artifact_list (artifacts updated))"
    by (simp_all add: channel_passes_def)
  from assms(2) len obtain i where i: "i < length artifact_list" "i < length (artifacts updated)"
    and ne: "art_type_id (h (artifact_list ! i)) \<noteq> art_type_id (artifacts updated ! i)"
    by auto
  from pm i have "art_type_id (h (artifact_list ! i)) = art_type_id (artifacts updated ! i)"
    by (simp add: pairs_match_def list_all_length)
  with ne show False by simp
qed

subsection \<open>What the loops leave in the artifact objects\<close>

lemma artifact_objects_split:
  "artifact_objects (pre @ (key, artifact_list) # post)
     = artifact_objects pre @ artifact_list @ artifact_objects post"
  by (simp add: artifact_objects_def)

lemma overwrite_Nil: "overwrite h [] = h"
  by (simp add: overwrite_def)

lemma overwrite_append: "overwrite h (ps @ qs) = overwrite (overwrite h ps) qs"
  by (auto simp: overwrite_def fun_eq_iff map_add_def split: option.splits)

lemma overwrite_Cons: "h1 = h(a := u) \<Longrightarrow> overwrite h ((a, u) # ps) = overwrite h1 ps"
  using overwrite_append [of h "[(a, u)]" ps]
  by (simp add: overwrite_def fun_eq_iff split: option.splits)

lemma overwrite_frame: "a \<notin> fst ` set ps \<Longrightarrow> overwrite h ps a = h a"
  by (auto simp: overwrite_def map_of_eq_None_iff split: option.splits dest!: map_of_SomeD
           intro: rev_image_eqI)

lemma type_kept_cong:
  "(\<And>a. art_type_id (h1 a) = art_type_id (h2 a)) \<Longrightarrow> type_kept h1 = type_kept h2"
  by (simp add: type_kept_def fun_eq_iff)

lemma pairs_match_type_kept: "pairs_match h ps = list_all (type_kept h) ps"
proof -
  have "(\<lambda>(original, updated). art_type_id (h original) = art_type_id updated) = type_kept h"
    by (auto simp: fun_eq_iff type_kept_def)
  then show ?thesis by (simp add: pairs_match_def)
qed

lemma takeWhile_all: "list_all P xs \<Longrightarrow> takeWhile P xs = xs"
  by (induction xs) simp_all

lemma merge_artifacts_overwrite:
  "snd (merge_artifacts h ps) = overwrite h (takeWhile (type_kept h) ps)"
proof (induction ps arbitrary: h)
  case Nil
  show ?case by (simp add: overwrite_Nil)
next
  case (Cons p rest)
  obtain original updated where p: "p = (original, updated)" by (cases p)
  show ?case
  proof (cases "art_type_id (h original) = art_type_id updated")
    case True
    define h1 where "h1 = h(original := updated)"
    have "\<And>a. art_type_id (h1 a) = art_type_id (h a)" using True by (simp add: h1_def)
    then have tk: "type_kept h1 = type_kept h" by (rule type_kept_cong)
    have step: "merge_artifacts h (p # rest) = merge_artifacts h1 rest"
      unfolding p using True h1_def by (rule merge_artifacts_Cons_eq)
    have tw: "takeWhile (type_kept h) (p # rest) = (original, updated) # takeWhile (type_kept h) rest"
      using True p by (simp add: type_kept_def)
    have "overwrite h ((original, updated) # takeWhile (type_kept h) rest)
            = overwrite h1 (takeWhile (type_kept h) rest)"
      using h1_def by (rule overwrite_Cons)
    with Cons.IH [of h1] step tw tk show ?thesis by simp
  next
    case False
    with p show ?thesis by (simp add: type_kept_def overwrite_Nil)
  qed
qed

lemma merge_channels_single_heap:
  "snd (merge_channels h eo [ch]) = overwrite h (copied_pairs h eo ch)"
proof -
  obtain key artifact_list where ch: "ch = (key, artifact_list)" by (cases ch)
  show ?thesis
  proof (cases "map_of (eo_output_artifacts eo) key")
    case None
    with ch show ?thesis by (simp add: copied_pairs_def overwrite_Nil)
  next
    case (Some updated)
    show ?thesis
    proof (cases "length artifact_list = length (artifacts updated)")
      case False
      with Some ch show ?thesis by (simp add: copied_pairs_def overwrite_Nil)
    next
      case True
      let ?ps = "zip artifact_list (artifacts updated)"
      obtain r h1 where ma: "merge_artifacts h ?ps = (r, h1)"
        by (cases "merge_artifacts h ?ps")
      have h1: "h1 = overwrite h (takeWhile (type_kept h) ?ps)"
        using merge_artifacts_overwrite [of h ?ps] ma by simp
      have "merge_channels h eo [ch]
              = (case r of Inl e \<Rightarrow> (Inl e, h1) | Inr u \<Rightarrow> merge_channels h1 eo [])"
        unfolding ch using Some True ma by (rule merge_channels_reported)
      then have "snd (merge_channels h eo [ch]) = h1" by (cases r) simp_all
      with h1 Some True ch show ?thesis by (simp add: copied_pairs_def)
    qed
  qed
qed

lemma copied_pairs_passes:
  "channel_passes h eo ch \<Longrightarrow> copied_pairs h eo ch = reported_pairs eo [ch]"
proof (cases "map_of (eo_output_artifacts eo) (fst ch)")
  case None
  then show ?thesis by (simp add: copied_pairs_def reported_pairs_def)
next
  case (Some updated)
  assume "channel_passes h eo ch"
  with Some have len: "length (snd ch) = length (artifacts updated)"
    and all: "list_all (type_kept h) (zip (snd ch) (artifacts updated))"
    by (simp_all add: channel_passes_def pairs_match_type_kept)
  from all have "takeWhile (type_kept h) (zip (snd ch) (artifacts updated))
                   = zip (snd ch) (artifacts updated)"
    by (rule takeWhile_all)
  with Some len show ?thesis by (simp add: copied_pairs_def reported_pairs_def)
qed

lemma copied_pairs_cong:
  "(\<And>a. art_type_id (h1 a) = art_type_id (h2 a))
     \<Longrightarrow> copied_pairs h1 eo ch = copied_pairs h2 eo ch"
proof -
  assume "\<And>a. art_type_id (h1 a) = art_type_id (h2 a)"
  then have tk: "type_kept h1 = type_kept h2" by (rule type_kept_cong)
  show ?thesis unfolding copied_pairs_def tk ..
qed

lemma reported_pairs_append:
  "reported_pairs eo (m1 @ m2) = reported_pairs eo m1 @ reported_pairs eo m2"
  by (simp add: reported_pairs_def)

lemma merge_channels_overwrite:
  "list_all (channel_passes h eo) m
     \<Longrightarrow> snd (merge_channels h eo m) = overwrite h (reported_pairs eo m)"
proof (induction m arbitrary: h)
  case Nil
  show ?case by (simp add: reported_pairs_def overwrite_Nil)
next
  case (Cons ch m)
  from Cons.prems have c: "channel_passes h eo ch" and rest: "list_all (channel_passes h eo) m"
    by simp_all
  obtain r h1 where one: "merge_channels h eo [ch] = (r, h1)"
    by (cases "merge_channels h eo [ch]")
  have r: "r = Inr ()"
    using merge_channels_result [of h eo "[ch]"] c one by simp
  have h1: "h1 = overwrite h (reported_pairs eo [ch])"
    using merge_channels_single_heap [of h eo ch] one copied_pairs_passes [OF c] by simp
  have ty: "\<And>a. art_type_id (h1 a) = art_type_id (h a)"
    using merge_channels_type_id [of h eo "[ch]"] one by simp
  have "channel_passes h1 eo = channel_passes h eo"
    by (rule ext, rule channel_passes_cong, rule ty)
  with rest have rest1: "list_all (channel_passes h1 eo) m" by simp
  have "merge_channels h eo (ch # m) = merge_channels h1 eo m"
    using merge_channels_append [of h eo "[ch]" m] one r by simp
  then have "snd (merge_channels h eo (ch # m)) = overwrite h1 (reported_pairs eo m)"
    using Cons.IH [OF rest1] by simp
  also have "\<dots> = overwrite h (reported_pairs eo [ch] @ reported_pairs eo m)"
    unfolding h1 by (rule overwrite_append [symmetric])
  also have "reported_pairs eo [ch] @ reported_pairs eo m = reported_pairs eo (ch # m)"
    using reported_pairs_append [of eo "[ch]" m] by simp
  finally show ?case .
qed

lemma merge_channels_failure_heap:
  assumes "list_all (channel_passes h eo) pre" and "\<not> channel_passes h eo ch"
  shows "snd (merge_channels h eo (pre @ ch # post))
           = overwrite h (reported_pairs eo pre @ copied_pairs h eo ch)"
proof -
  obtain r h1 where p: "merge_channels h eo pre = (r, h1)"
    by (cases "merge_channels h eo pre")
  with assms(1) merge_channels_result [of h eo pre] have r: "r = Inr ()" by simp
  have h1: "h1 = overwrite h (reported_pairs eo pre)"
    using merge_channels_overwrite [OF assms(1)] p by simp
  have ty: "\<And>a. art_type_id (h1 a) = art_type_id (h a)"
    using merge_channels_type_id [of h eo pre] p by simp
  have cp: "channel_passes h1 eo ch = channel_passes h eo ch"
    by (rule channel_passes_cong, rule ty)
  have cc: "copied_pairs h1 eo ch = copied_pairs h eo ch"
    by (rule copied_pairs_cong, rule ty)
  obtain r2 h2 where one: "merge_channels h1 eo [ch] = (r2, h2)"
    by (cases "merge_channels h1 eo [ch]")
  have "r2 \<noteq> Inr ()"
    using merge_channels_result [of h1 eo "[ch]"] assms(2) cp one by simp
  then obtain e where e: "r2 = Inl e" by (cases r2) auto
  have h2: "h2 = overwrite h1 (copied_pairs h eo ch)"
    using merge_channels_single_heap [of h1 eo ch] one cc by simp
  have "merge_channels h1 eo (ch # post) = (Inl e, h2)"
    using merge_channels_append [of h1 eo "[ch]" post] one e by simp
  with p r have "snd (merge_channels h eo (pre @ ch # post)) = h2"
    by (simp add: merge_channels_append [of h eo pre])
  with h2 h1 show ?thesis by (simp add: overwrite_append)
qed

lemma reported_pairs_objects:
  "fst ` set (reported_pairs eo m) \<subseteq> set (artifact_objects m)"
  by (auto simp: reported_pairs_def artifact_objects_def split: option.splits
           dest!: set_zip_leftD)

lemma overwrite_reported_frame:
  "a \<notin> set (artifact_objects m) \<Longrightarrow> overwrite h (reported_pairs eo m) a = h a"
  using reported_pairs_objects [of eo m] by (auto intro!: overwrite_frame)

lemma overwrite_last:
  "a \<notin> fst ` set rs \<Longrightarrow> overwrite h (qs @ (a, u) # rs) a = u"
proof -
  assume nin: "a \<notin> fst ` set rs"
  define h1 where "h1 = (overwrite h qs)(a := u)"
  have "overwrite h (qs @ (a, u) # rs) = overwrite (overwrite h qs) ((a, u) # rs)"
    by (rule overwrite_append)
  also have "\<dots> = overwrite h1 rs" using h1_def by (rule overwrite_Cons)
  finally have "overwrite h (qs @ (a, u) # rs) a = overwrite h1 rs a" by simp
  also have "\<dots> = h1 a" using nin by (rule overwrite_frame)
  finally show ?thesis by (simp add: h1_def)
qed

lemma takeWhile_prefix:
  assumes "j < length ps" and "\<And>l. l \<le> j \<Longrightarrow> P (ps ! l)"
  shows "takeWhile P ps = take j ps @ ps ! j # takeWhile P (drop (Suc j) ps)"
proof -
  have all: "\<And>x. x \<in> set (take (Suc j) ps) \<Longrightarrow> P x"
    using assms by (auto simp: in_set_conv_nth)
  have "takeWhile P (take (Suc j) ps @ drop (Suc j) ps)
          = take (Suc j) ps @ takeWhile P (drop (Suc j) ps)"
    using all by (rule takeWhile_append2)
  then have "takeWhile P ps = take (Suc j) ps @ takeWhile P (drop (Suc j) ps)"
    by (simp only: append_take_drop_id)
  then show ?thesis by (simp add: take_Suc_conv_app_nth [OF assms(1)])
qed

lemma merge_artifacts_last_copy:
  assumes j: "j < length ps"
    and ok: "\<And>l. l \<le> j \<Longrightarrow> art_type_id (h (fst (ps ! l))) = art_type_id (snd (ps ! l))"
    and later: "fst (ps ! j) \<notin> fst ` set (drop (Suc j) ps)"
  shows "snd (merge_artifacts h ps) (fst (ps ! j)) = snd (ps ! j)"
proof -
  have tw: "takeWhile (type_kept h) ps
              = take j ps @ ps ! j # takeWhile (type_kept h) (drop (Suc j) ps)"
  proof (rule takeWhile_prefix [OF j])
    fix l assume "l \<le> j"
    then show "type_kept h (ps ! l)" using ok by (simp add: type_kept_def)
  qed
  have "set (takeWhile (type_kept h) (drop (Suc j) ps)) \<subseteq> set (drop (Suc j) ps)"
    by (auto dest: set_takeWhileD)
  with later have nin: "fst (ps ! j) \<notin> fst ` set (takeWhile (type_kept h) (drop (Suc j) ps))"
    by auto
  have "overwrite h (take j ps @ (fst (ps ! j), snd (ps ! j))
                       # takeWhile (type_kept h) (drop (Suc j) ps)) (fst (ps ! j))
          = snd (ps ! j)"
    using nin by (rule overwrite_last)
  then show ?thesis by (simp add: merge_artifacts_overwrite tw)
qed

lemma merge_channels_last_copy:
  assumes pre: "list_all (channel_passes h eo) pre"
    and some: "map_of (eo_output_artifacts eo) key = Some updated"
    and len: "length artifact_list = length (artifacts updated)"
    and j: "j < length artifact_list"
    and ok: "\<And>l. l \<le> j \<Longrightarrow> art_type_id (h (artifact_list ! l))
                                = art_type_id (artifacts updated ! l)"
    and later: "artifact_list ! j \<notin> set (drop (Suc j) artifact_list)"
    and post: "artifact_list ! j \<notin> set (artifact_objects post)"
  shows "snd (merge_channels h eo (pre @ (key, artifact_list) # post)) (artifact_list ! j)
           = artifacts updated ! j"
proof -
  let ?m = "pre @ (key, artifact_list) # post"
  let ?ps = "zip artifact_list (artifacts updated)"
  obtain r1 h1 where p: "merge_channels h eo pre = (r1, h1)"
    by (cases "merge_channels h eo pre")
  with pre merge_channels_result [of h eo pre] have r1: "r1 = Inr ()" by simp
  have step: "merge_channels h eo ?m = merge_channels h1 eo ((key, artifact_list) # post)"
    using merge_channels_append [of h eo pre "(key, artifact_list) # post"] p r1 by simp
  have ty1: "\<And>b. art_type_id (h1 b) = art_type_id (h b)"
    using merge_channels_type_id [of h eo pre] p by simp
  obtain r2 h2 where ma: "merge_artifacts h1 ?ps = (r2, h2)"
    by (cases "merge_artifacts h1 ?ps")
  have jps: "j < length ?ps" using j len by simp
  have okps: "art_type_id (h1 (fst (?ps ! l))) = art_type_id (snd (?ps ! l))"
    if "l \<le> j" for l
    using that j len ok [OF that] ty1 by simp
  have "fst ` set (drop (Suc j) ?ps) \<subseteq> set (drop (Suc j) artifact_list)"
    by (auto simp: drop_zip dest: set_zip_leftD)
  with later j len have lps: "fst (?ps ! j) \<notin> fst ` set (drop (Suc j) ?ps)" by auto
  have "snd (merge_artifacts h1 ?ps) (fst (?ps ! j)) = snd (?ps ! j)"
    using jps okps lps by (rule merge_artifacts_last_copy)
  with ma j len have h2: "h2 (artifact_list ! j) = artifacts updated ! j" by simp
  have fr: "snd (merge_channels h2 eo post) (artifact_list ! j) = h2 (artifact_list ! j)"
    using post by (rule merge_channels_frame)
  have "merge_channels h1 eo ((key, artifact_list) # post)
          = (case r2 of Inl e \<Rightarrow> (Inl e, h2) | Inr u \<Rightarrow> merge_channels h2 eo post)"
    using some len ma by (rule merge_channels_reported)
  with step have "snd (merge_channels h eo ?m) (artifact_list ! j) = h2 (artifact_list ! j)"
    using fr by (cases r2) simp_all
  with h2 show ?thesis by simp
qed

lemma publish_succeeded_lookup_failure_eq:
  assumes "merge_executor_output h executor_output
             (case output_artifacts of None \<Rightarrow> [] | Some m \<Rightarrow> m) = (Inr (), h1)"
    and "length (get_executions_by_id store [execution_id]) \<noteq> 1"
  shows "publish_succeeded_execution store h execution_id contexts output_artifacts
           executor_output
         = (Inl ValueError,
            mark_live h1 (case output_artifacts of None \<Rightarrow> [] | Some m \<Rightarrow> m), store)"
proof -
  from assms(2) have "unpack_single (get_executions_by_id store [execution_id]) = Inl ValueError"
    by (simp add: unpack_single_Inl)
  with assms(1) show ?thesis by (simp add: publish_succeeded_execution_def Let_def)
qed

subsection \<open>The store\<close>

lemma get_executions_by_id_single:
  "get_executions_by_id store [i] = filter (\<lambda>e. exec_id e = Some i) (store_executions store)"
  unfolding get_executions_by_id_def
  by (rule filter_cong) (auto split: option.splits)

lemma found_execution:
  assumes "get_executions_by_id store [i] = [x]"
  shows "exec_id x = Some i" and "i \<in> set (execution_ids (store_executions store))"
proof -
  from assms have "x \<in> set (filter (\<lambda>e. exec_id e = Some i) (store_executions store))"
    by (simp add: get_executions_by_id_single)
  then have mem: "x \<in> set (store_executions store)" and id: "exec_id x = Some i" by simp_all
  show "exec_id x = Some i" by (rule id)
  from mem id show "i \<in> set (execution_ids (store_executions store))"
    by (force simp: execution_ids_def)
qed

lemma filter_replace:
  assumes "exec_id e = Some i"
  shows "filter (\<lambda>y. exec_id y = Some i) (map (\<lambda>y. if exec_id y = Some i then e else y) xs)
           = map (\<lambda>y. e) (filter (\<lambda>y. exec_id y = Some i) xs)"
  using assms by (induction xs) simp_all

lemma put_execution_executions:
  "store_executions (snd (put_execution store h e contexts ins outs t))
     = snd (upsert_execution (store_executions store) e)"
  by (simp add: put_execution_def Let_def split: prod.splits)

lemma put_execution_updates:
  assumes "get_executions_by_id store [i] = [x]" and "exec_id e = Some i"
  shows "get_executions_by_id (snd (put_execution store h e contexts ins outs t)) [i] = [e]"
proof -
  from assms(1) have mem: "i \<in> set (execution_ids (store_executions store))"
    by (rule found_execution(2))
  from assms(1) have f: "filter (\<lambda>y. exec_id y = Some i) (store_executions store) = [x]"
    by (simp add: get_executions_by_id_single)
  have "snd (upsert_execution (store_executions store) e)
          = map (\<lambda>y. if exec_id y = Some i then e else y) (store_executions store)"
    using mem assms(2) by (simp add: upsert_execution_def)
  then show ?thesis
    using filter_replace [OF assms(2), of "store_executions store"] f
    by (simp add: get_executions_by_id_single put_execution_executions)
qed

lemma put_artifacts_length:
  "length (fst (put_artifacts stored as)) = length as"
proof (induction as arbitrary: stored)
  case Nil
  show ?case by simp
next
  case (Cons a as)
  obtain i stored1 where u: "upsert_artifact stored a = (i, stored1)"
    by (cases "upsert_artifact stored a")
  obtain ids stored2 where p: "put_artifacts stored1 as = (ids, stored2)"
    by (cases "put_artifacts stored1 as")
  from Cons [of stored1] p have "length ids = length as" by simp
  with u p show ?case by simp
qed

lemma upsert_artifact_records:
  assumes "r \<in> set (snd (upsert_artifact stored a))"
  shows "r \<in> set stored \<or> r = a\<lparr>art_id := art_id r\<rparr>"
  using assms
  by (auto simp: upsert_artifact_def Let_def split: option.splits if_splits)

lemma put_artifacts_records:
  assumes "r \<in> set (snd (put_artifacts stored as))"
  shows "r \<in> set stored \<or> (\<exists>a \<in> set as. r = a\<lparr>art_id := art_id r\<rparr>)"
  using assms
proof (induction as arbitrary: stored)
  case Nil
  then show ?case by simp
next
  case (Cons a as)
  obtain i stored1 where u: "upsert_artifact stored a = (i, stored1)"
    by (cases "upsert_artifact stored a")
  with Cons.prems have "r \<in> set (snd (put_artifacts stored1 as))"
    by (simp split: prod.splits)
  then have "r \<in> set stored1 \<or> (\<exists>a \<in> set as. r = a\<lparr>art_id := art_id r\<rparr>)"
    by (rule Cons.IH)
  moreover have "r \<in> set stored \<or> r = a\<lparr>art_id := art_id r\<rparr>" if "r \<in> set stored1"
    using upsert_artifact_records [of r stored a] u that by simp
  ultimately show ?case by auto
qed

lemma put_execution_no_inputs:
  "put_execution store h e contexts None outs t
     = (fst (upsert_execution (store_executions store) e),
        \<lparr>store_executions = snd (upsert_execution (store_executions store) e),
         store_artifacts = snd (put_artifacts (store_artifacts store) (artifacts_of h outs)),
         store_events = store_events store
           @ map (\<lambda>a. \<lparr>ev_artifact_id = a,
                        ev_execution_id =
                          (case exec_id (fst (upsert_execution (store_executions store) e)) of
                             None \<Rightarrow> 0 | Some i \<Rightarrow> i),
                        ev_type = t\<rparr>)
               (fst (put_artifacts (store_artifacts store) (artifacts_of h outs))),
         store_associations = store_associations store
           @ map (\<lambda>c. (c, case exec_id (fst (upsert_execution (store_executions store) e)) of
                             None \<Rightarrow> 0 | Some i \<Rightarrow> i)) (map ctx_id contexts),
         store_attributions = store_attributions store\<rparr>)"
  by (simp add: put_execution_def Let_def artifacts_of_def split: prod.splits)

lemma upsert_execution_known:
  assumes "i \<in> set (execution_ids stored)" and "exec_id e = Some i"
  shows "fst (upsert_execution stored e) = e"
  using assms by (simp add: upsert_execution_def)

lemma upsert_execution_new:
  assumes "exec_id e = None"
  shows "exec_id (fst (upsert_execution stored e)) \<noteq> None"
    and "exec_last_known_state (fst (upsert_execution stored e)) = exec_last_known_state e"
    and "fst (upsert_execution stored e) \<in> set (snd (upsert_execution stored e))"
  using assms by (simp_all add: upsert_execution_def Let_def)

lemma put_execution_returns:
  "fst (put_execution store h e contexts ins outs t)
     = fst (upsert_execution (store_executions store) e)"
  by (simp add: put_execution_def Let_def split: prod.splits)

lemma artifacts_of_default:
  "artifacts_of h (Some (case output_artifacts of None \<Rightarrow> [] | Some m \<Rightarrow> m))
     = artifacts_of h output_artifacts"
  by (cases output_artifacts) (simp_all add: artifacts_of_def)

lemma artifacts_of_objects:
  "artifacts_of h output_artifacts
     = map h (artifact_objects (case output_artifacts of None \<Rightarrow> [] | Some m \<Rightarrow> m))"
  by (cases output_artifacts) (simp_all add: artifacts_of_def artifact_objects_def)

lemma mark_live_already:
  assumes "\<forall>a \<in> set (artifact_objects m). art_state (h a) = LIVE"
  shows "mark_live h m = h"
proof -
  have "(h a)\<lparr>art_state := LIVE\<rparr> = h a" if "a \<in> set (artifact_objects m)" for a
  proof -
    have "(h a)\<lparr>art_state := art_state (h a)\<rparr> = h a" by simp
    with assms that show ?thesis by simp
  qed
  then show ?thesis by (auto simp: mark_live_eq fun_eq_iff)
qed

lemma foldr_max_ge: "i \<in> set ids \<Longrightarrow> i \<le> foldr max ids (0::int)"
  by (induction ids) auto

lemma fresh_id_fresh: "fresh_id ids \<notin> set ids"
proof
  assume "fresh_id ids \<in> set ids"
  then have "fresh_id ids \<le> foldr max ids 0" by (rule foldr_max_ge)
  then show False by (simp add: fresh_id_def)
qed

lemma execution_ids_mem: "i \<in> set (execution_ids es) \<longleftrightarrow> (\<exists>e \<in> set es. exec_id e = Some i)"
  by (induction es) (auto simp: execution_ids_def split: option.splits)

lemma upsert_execution_fresh:
  assumes "exec_id e = None"
  shows "snd (upsert_execution stored e) = stored @ [fst (upsert_execution stored e)]"
    and "fst (upsert_execution stored e) = e\<lparr>exec_id := Some (fresh_id (execution_ids stored))\<rparr>"
    and "filter (\<lambda>y. exec_id y = exec_id (fst (upsert_execution stored e)))
           (snd (upsert_execution stored e)) = [fst (upsert_execution stored e)]"
proof -
  let ?f = "fresh_id (execution_ids stored)"
  show a: "snd (upsert_execution stored e) = stored @ [fst (upsert_execution stored e)]"
    and b: "fst (upsert_execution stored e) = e\<lparr>exec_id := Some ?f\<rparr>"
    using assms by (simp_all add: upsert_execution_def Let_def)
  have "?f \<notin> set (execution_ids stored)" by (rule fresh_id_fresh)
  then have "\<forall>y \<in> set stored. exec_id y \<noteq> Some ?f" by (simp add: execution_ids_mem)
  then have "filter (\<lambda>y. exec_id y = Some ?f) stored = []" by (simp add: filter_empty_conv)
  then show "filter (\<lambda>y. exec_id y = exec_id (fst (upsert_execution stored e)))
           (snd (upsert_execution stored e)) = [fst (upsert_execution stored e)]"
    unfolding a unfolding b by simp
qed

lemma artifact_ids_mem: "i \<in> set (artifact_ids as) \<longleftrightarrow> (\<exists>a \<in> set as. art_id a = Some i)"
  by (induction as) (auto simp: artifact_ids_def split: option.splits)

lemma upsert_artifact_stored:
  "a\<lparr>art_id := Some (fst (upsert_artifact stored a))\<rparr> \<in> set (snd (upsert_artifact stored a))"
proof (cases "art_id a")
  case None
  then show ?thesis by (simp add: upsert_artifact_def Let_def)
next
  case (Some i)
  then have same: "a\<lparr>art_id := Some i\<rparr> = a" by simp
  show ?thesis
  proof (cases "i \<in> set (artifact_ids stored)")
    case True
    then obtain x where "x \<in> set stored" "art_id x = Some i"
      by (auto simp: artifact_ids_mem)
    then have mem: "a \<in> set (map (\<lambda>x. if art_id x = Some i then a else x) stored)"
      by (auto simp: image_iff intro!: bexI [of _ x])
    have f: "fst (upsert_artifact stored a) = i"
      and s: "snd (upsert_artifact stored a)
                = map (\<lambda>x. if art_id x = Some i then a else x) stored"
      using Some True by (simp_all add: upsert_artifact_def)
    show ?thesis unfolding f s same by (rule mem)
  next
    case False
    have f: "fst (upsert_artifact stored a) = i"
      and s: "snd (upsert_artifact stored a) = stored @ [a]"
      using Some False by (simp_all add: upsert_artifact_def)
    show ?thesis unfolding f s same by simp
  qed
qed

lemma upsert_artifact_keeps:
  assumes "r \<in> set stored" and "art_id b \<noteq> art_id r"
  shows "r \<in> set (snd (upsert_artifact stored b))"
proof (cases "art_id b")
  case None
  with assms(1) show ?thesis by (simp add: upsert_artifact_def Let_def)
next
  case (Some j)
  with assms(2) have "art_id r \<noteq> Some j" by auto
  with assms(1) have "r \<in> set (map (\<lambda>x. if art_id x = Some j then b else x) stored)"
    by (auto simp: image_iff intro!: bexI [of _ r])
  with Some assms(1) show ?thesis by (simp add: upsert_artifact_def)
qed

lemma put_artifacts_keeps:
  assumes "r \<in> set stored" and "\<And>b. b \<in> set as \<Longrightarrow> art_id b \<noteq> art_id r"
  shows "r \<in> set (snd (put_artifacts stored as))"
  using assms
proof (induction as arbitrary: stored)
  case Nil
  then show ?case by simp
next
  case (Cons a as)
  obtain i stored1 where u: "upsert_artifact stored a = (i, stored1)"
    by (cases "upsert_artifact stored a")
  obtain ids stored2 where p: "put_artifacts stored1 as = (ids, stored2)"
    by (cases "put_artifacts stored1 as")
  have "art_id a \<noteq> art_id r" using Cons.prems(2) by simp
  with Cons.prems(1) have "r \<in> set (snd (upsert_artifact stored a))"
    by (rule upsert_artifact_keeps)
  with u have "r \<in> set stored1" by simp
  then have "r \<in> set (snd (put_artifacts stored1 as))"
    using Cons.prems(2) by (intro Cons.IH) simp_all
  with u p show ?case by simp
qed

lemma put_artifacts_persisted:
  assumes "k < length as"
    and "\<And>l. k < l \<Longrightarrow> l < length as
           \<Longrightarrow> art_id (as ! l) \<noteq> Some (fst (put_artifacts stored as) ! k)"
  shows "(as ! k)\<lparr>art_id := Some (fst (put_artifacts stored as) ! k)\<rparr>
           \<in> set (snd (put_artifacts stored as))"
  using assms
proof (induction as arbitrary: stored k)
  case Nil
  then show ?case by simp
next
  case (Cons a as)
  obtain i stored1 where u: "upsert_artifact stored a = (i, stored1)"
    by (cases "upsert_artifact stored a")
  obtain ids stored2 where p: "put_artifacts stored1 as = (ids, stored2)"
    by (cases "put_artifacts stored1 as")
  have all: "put_artifacts stored (a # as) = (i # ids, stored2)"
    using u p by simp
  show ?case
  proof (cases k)
    case 0
    have mem: "a\<lparr>art_id := Some i\<rparr> \<in> set stored1"
      using upsert_artifact_stored [where a = a and stored = stored] u by simp
    have "art_id b \<noteq> art_id (a\<lparr>art_id := Some i\<rparr>)" if "b \<in> set as" for b
    proof -
      from that obtain l where l: "l < length as" "b = as ! l"
        by (auto simp: in_set_conv_nth)
      from Cons.prems(2) [of "Suc l"] l 0 all show ?thesis by simp
    qed
    with mem have "a\<lparr>art_id := Some i\<rparr> \<in> set (snd (put_artifacts stored1 as))"
      by (rule put_artifacts_keeps)
    with 0 all p show ?thesis by simp
  next
    case (Suc k')
    with Cons.prems(1) have k': "k' < length as" by simp
    have "art_id (as ! l) \<noteq> Some (fst (put_artifacts stored1 as) ! k')"
      if "k' < l" "l < length as" for l
      using Cons.prems(2) [of "Suc l"] that Suc all p by simp
    with k' have "(as ! k')\<lparr>art_id := Some (fst (put_artifacts stored1 as) ! k')\<rparr>
                    \<in> set (snd (put_artifacts stored1 as))"
      by (rule Cons.IH)
    with Suc all p show ?thesis by simp
  qed
qed

section \<open>Claims\<close>

text \<open>
  C3. In \<^verbatim>\<open>publish_succeeded_execution\<close>, an executor report with a channel name that
  the skeleton does not have makes the call raise the error of line 89, which carries the
  whole executor output (so also the offending channel) and the skeleton. Nothing has been
  touched at that point: the artifact objects and the store are as before the call.
\<close>

theorem C3_unknown_channel:
  assumes "c \<in> set (map fst (eo_output_artifacts eo))"
    and "c \<notin> set (map fst (case output_artifacts of None \<Rightarrow> [] | Some m \<Rightarrow> m))"
  shows "publish_succeeded_execution store h execution_id contexts output_artifacts (Some eo)
         = (Inl (RuntimeError
                  (MoreKeys eo (case output_artifacts of None \<Rightarrow> [] | Some m \<Rightarrow> m))),
            h, store)"
  using assms
  by (auto simp: publish_succeeded_execution_def merge_executor_output_def Let_def)

theorem C3_unknown_channel_witness:
  "''extra'' \<in> set (map fst (eo_output_artifacts
       (scenario_report ''extra'' [example_artifact None 5 ''gs://x'' LIVE])))
   \<and> ''extra'' \<notin> set (map fst [(''model'', [0::nat])])
   \<and> publish_succeeded_execution scenario_store scenario_heap 1 scenario_contexts
        (Some [(''model'', [0])])
        (Some (scenario_report ''extra'' [example_artifact None 5 ''gs://x'' LIVE]))
      = (Inl (RuntimeError
               (MoreKeys (scenario_report ''extra'' [example_artifact None 5 ''gs://x'' LIVE])
                  [(''model'', [0])])),
         scenario_heap, scenario_store)"
  using C3_unknown_channel [of "''extra''"
      "scenario_report ''extra'' [example_artifact None 5 ''gs://x'' LIVE]"
      "Some [(''model'', [0])]" scenario_store scenario_heap 1 scenario_contexts]
  by (simp add: scenario_report_def)

text \<open>
  C7. Whenever \<^verbatim>\<open>publish_succeeded_execution\<close> raises one of the three merge errors
  (a \<open>RuntimeError\<close>), the store is exactly the store before the call: the raise happens
  before \<^verbatim>\<open>get_executions_by_id\<close> and \<^verbatim>\<open>put_execution\<close> are reached.
\<close>

theorem C7_no_write_on_merge_failure:
  assumes "fst (publish_succeeded_execution store h execution_id contexts output_artifacts
                  executor_output) = Inl (RuntimeError m)"
  shows "snd (snd (publish_succeeded_execution store h execution_id contexts output_artifacts
                  executor_output)) = store"
  using assms
  by (auto simp: publish_succeeded_execution_def Let_def
           split: prod.splits sum.splits dest: unpack_single_error)

theorem C7_no_write_on_merge_failure_witness:
  "fst (publish_succeeded_execution scenario_store scenario_heap 1 scenario_contexts
          (Some [(''model'', [0, 1])])
          (Some (scenario_report ''model'' [example_artifact None 5 ''gs://x'' LIVE])))
     = Inl (RuntimeError PartialUpdate)
   \<and> snd (snd (publish_succeeded_execution scenario_store scenario_heap 1 scenario_contexts
          (Some [(''model'', [0, 1])])
          (Some (scenario_report ''model'' [example_artifact None 5 ''gs://x'' LIVE]))))
     = scenario_store"
proof -
  have f: "fst (publish_succeeded_execution scenario_store scenario_heap 1 scenario_contexts
          (Some [(''model'', [0, 1])])
          (Some (scenario_report ''model'' [example_artifact None 5 ''gs://x'' LIVE])))
     = Inl (RuntimeError PartialUpdate)"
    by (simp add: publish_succeeded_execution_def merge_executor_output_def
          scenario_report_def)
  from f C7_no_write_on_merge_failure [OF f] show ?thesis by simp
qed

text \<open>
  C6. When \<^verbatim>\<open>publish_succeeded_execution\<close> returns, every artifact object of every
  channel of the skeleton has state \<open>LIVE\<close>; and when no executor output was given, the
  artifact objects of the skeleton differ from what they were only in that state, and no other
  object has changed.
\<close>

theorem C6_outputs_live:
  assumes "fst (publish_succeeded_execution store h execution_id contexts output_artifacts
                  executor_output) = Inr ()"
  shows "(\<forall>a \<in> set (artifact_objects (case output_artifacts of None \<Rightarrow> [] | Some m \<Rightarrow> m)).
            art_state (fst (snd (publish_succeeded_execution store h execution_id contexts
                                   output_artifacts executor_output)) a) = LIVE)
       \<and> (executor_output = None \<longrightarrow>
            fst (snd (publish_succeeded_execution store h execution_id contexts
                        output_artifacts executor_output))
            = (\<lambda>a. if a \<in> set (artifact_objects
                                   (case output_artifacts of None \<Rightarrow> [] | Some m \<Rightarrow> m))
                    then (h a)\<lparr>art_state := LIVE\<rparr> else h a))"
proof -
  let ?m = "case output_artifacts of None \<Rightarrow> [] | Some m \<Rightarrow> m"
  from assms have ok: "fst (merge_executor_output h executor_output ?m) = Inr ()"
    by (rule publish_succeeded_Inr)
  have heap: "fst (snd (publish_succeeded_execution store h execution_id contexts
                          output_artifacts executor_output))
              = mark_live (snd (merge_executor_output h executor_output ?m)) ?m"
    using ok by (rule publish_succeeded_merge_ok)
  have none: "snd (merge_executor_output h None ?m) = h"
    by (simp add: merge_executor_output_def)
  show ?thesis unfolding heap mark_live_eq using none by auto
qed

theorem C6_outputs_live_witness:
  "fst (publish_succeeded_execution scenario_store scenario_heap 1 scenario_contexts
          (Some [(''model'', [0, 1])]) None) = Inr ()
   \<and> art_state (fst (snd (publish_succeeded_execution scenario_store scenario_heap 1
                             scenario_contexts (Some [(''model'', [0, 1])]) None)) 1) = LIVE
   \<and> fst (snd (publish_succeeded_execution scenario_store scenario_heap 1
                  scenario_contexts (Some [(''model'', [0, 1])]) None)) 0
     = example_artifact (Some 7) 5 ''/tmp/m1'' LIVE"
proof -
  have f: "fst (publish_succeeded_execution scenario_store scenario_heap 1 scenario_contexts
          (Some [(''model'', [0, 1])]) None) = Inr ()"
    by (simp add: publish_succeeded_execution_def merge_executor_output_def Let_def
          unpack_single_def get_executions_by_id_def scenario_store_def)
  from C6_outputs_live [OF f] f show ?thesis
    by (simp add: artifact_objects_def scenario_heap_def example_artifact_def)
qed

text \<open>
  C4, as stated, does not hold: with the skeleton \<open>{a: [0], b: [1, 2]}\<close> and a report
  whose channel \<open>a\<close> changes the type and whose channel \<open>b\<close> has one artifact
  for the two of the skeleton, the loop reaches channel \<open>a\<close> first and raises the
  type error, not the partial-update error.
\<close>

theorem C4_counterexample:
  "map_of (eo_output_artifacts
      \<lparr>eo_output_artifacts =
         [(''a'', \<lparr>artifacts = [example_artifact None 9 [] LIVE]\<rparr>),
          (''b'', \<lparr>artifacts = [example_artifact None 5 [] LIVE]\<rparr>)]\<rparr>) ''b''
     = Some \<lparr>artifacts = [example_artifact None 5 [] LIVE]\<rparr>
   \<and> length [1::nat, 2] \<noteq> length (artifacts \<lparr>artifacts = [example_artifact None 5 [] LIVE]\<rparr>)
   \<and> fst (publish_succeeded_execution scenario_store scenario_heap 1 scenario_contexts
            (Some [(''a'', [0]), (''b'', [1, 2])])
            (Some \<lparr>eo_output_artifacts =
               [(''a'', \<lparr>artifacts = [example_artifact None 9 [] LIVE]\<rparr>),
                (''b'', \<lparr>artifacts = [example_artifact None 5 [] LIVE]\<rparr>)]\<rparr>))
     = Inl (RuntimeError TypeChanged)
   \<and> fst (publish_succeeded_execution scenario_store scenario_heap 1 scenario_contexts
            (Some [(''a'', [0]), (''b'', [1, 2])])
            (Some \<lparr>eo_output_artifacts =
               [(''a'', \<lparr>artifacts = [example_artifact None 9 [] LIVE]\<rparr>),
                (''b'', \<lparr>artifacts = [example_artifact None 5 [] LIVE]\<rparr>)]\<rparr>))
     \<noteq> Inl (RuntimeError PartialUpdate)"
  by (simp add: publish_succeeded_execution_def merge_executor_output_def
        scenario_heap_def example_artifact_def)

text \<open>
  C4, amended. A channel of the skeleton that the report lists with a different number of
  artifacts always makes \<^verbatim>\<open>publish_succeeded_execution\<close> raise a
  \<open>RuntimeError\<close> and leave the store alone; the error is the partial-update error of
  line 97 when the subset check passes and every channel before it in the skeleton's iteration
  order passes its own checks.
\<close>

theorem C4_partial_channel_update:
  assumes "map_of (eo_output_artifacts eo) key = Some updated"
    and "length artifact_list \<noteq> length (artifacts updated)"
  shows "(\<exists>k. fst (publish_succeeded_execution store h execution_id contexts
                    (Some (pre @ (key, artifact_list) # post)) (Some eo))
               = Inl (RuntimeError k))
       \<and> snd (snd (publish_succeeded_execution store h execution_id contexts
                    (Some (pre @ (key, artifact_list) # post)) (Some eo))) = store
       \<and> (set (map fst (eo_output_artifacts eo))
              \<subseteq> set (map fst (pre @ (key, artifact_list) # post))
            \<and> list_all (channel_passes h eo) pre
          \<longrightarrow> fst (publish_succeeded_execution store h execution_id contexts
                    (Some (pre @ (key, artifact_list) # post)) (Some eo))
               = Inl (RuntimeError PartialUpdate))"
proof -
  let ?m = "pre @ (key, artifact_list) # post"
  let ?p = "publish_succeeded_execution store h execution_id contexts (Some ?m) (Some eo)"
  from assms have nf: "\<not> channel_passes h eo (key, artifact_list)"
    by (intro channel_fails_reported [of eo key updated]) simp_all
  then have "\<not> list_all (channel_passes h eo) ?m" by simp
  then have mc: "fst (merge_channels h eo ?m) \<noteq> Inr ()"
    by (simp add: merge_channels_result)
  have "fst (merge_executor_output h (Some eo) ?m) \<noteq> Inr ()"
    using mc by (simp add: merge_executor_output_def)
  then obtain e where e: "fst (merge_executor_output h (Some eo) ?m) = Inl e"
    by (cases "fst (merge_executor_output h (Some eo) ?m)") auto
  then obtain k where k: "e = RuntimeError k"
    by (auto dest: merge_executor_output_error_kind)
  have res: "?p = (Inl e, snd (merge_executor_output h (Some eo) ?m), store)"
    using publish_succeeded_merge_error [of h "Some eo" "Some ?m" e store execution_id contexts] e
    by simp
  have first: "fst ?p = Inl (RuntimeError PartialUpdate)"
    if sub: "set (map fst (eo_output_artifacts eo)) \<subseteq> set (map fst ?m)"
      and pre: "list_all (channel_passes h eo) pre"
  proof -
    have "fst (merge_channels h eo ?m) = fst (merge_channels h eo [(key, artifact_list)])"
      using pre nf by (rule merge_channels_first_failure(1))
    also have "\<dots> = Inl (RuntimeError PartialUpdate)"
      using assms by simp
    finally have "fst (merge_executor_output h (Some eo) ?m) = Inl (RuntimeError PartialUpdate)"
      using sub by (simp add: merge_executor_output_def)
    with e res show ?thesis by simp
  qed
  from res k first show ?thesis by simp
qed

theorem C4_partial_channel_update_witness:
  "map_of (eo_output_artifacts
             (scenario_report ''model'' [example_artifact None 5 ''gs://x'' LIVE])) ''model''
     = Some \<lparr>artifacts = [example_artifact None 5 ''gs://x'' LIVE]\<rparr>
   \<and> length [0::nat, 1] \<noteq> length (artifacts \<lparr>artifacts = [example_artifact None 5 ''gs://x'' LIVE]\<rparr>)
   \<and> set (map fst (eo_output_artifacts
             (scenario_report ''model'' [example_artifact None 5 ''gs://x'' LIVE])))
       \<subseteq> set (map fst ([] @ (''model'', [0::nat, 1]) # []))
   \<and> list_all (channel_passes scenario_heap
         (scenario_report ''model'' [example_artifact None 5 ''gs://x'' LIVE])) []
   \<and> fst (publish_succeeded_execution scenario_store scenario_heap 1 scenario_contexts
            (Some [(''model'', [0, 1])])
            (Some (scenario_report ''model'' [example_artifact None 5 ''gs://x'' LIVE])))
     = Inl (RuntimeError PartialUpdate)
   \<and> snd (snd (publish_succeeded_execution scenario_store scenario_heap 1 scenario_contexts
            (Some [(''model'', [0, 1])])
            (Some (scenario_report ''model'' [example_artifact None 5 ''gs://x'' LIVE]))))
     = scenario_store"
  using C4_partial_channel_update [of
      "scenario_report ''model'' [example_artifact None 5 ''gs://x'' LIVE]" "''model''"
      "\<lparr>artifacts = [example_artifact None 5 ''gs://x'' LIVE]\<rparr>" "[0, 1]"
      scenario_store scenario_heap 1 scenario_contexts "[]" "[]"]
  by (simp add: scenario_report_def)

text \<open>
  C5, as stated, does not hold: with the skeleton \<open>{model: [0, 1]}\<close> and a report
  that lists one artifact of another type for that channel, the first positional pair has
  different type ids, but the length check of line 96 comes first and raises the
  partial-update error.
\<close>

theorem C5_counterexample:
  "art_type_id (scenario_heap ([0, 1] ! 0))
     \<noteq> art_type_id ([example_artifact None 9 ''gs://x'' LIVE] ! 0)
   \<and> fst (publish_succeeded_execution scenario_store scenario_heap 1 scenario_contexts
            (Some [(''model'', [0, 1])])
            (Some (scenario_report ''model'' [example_artifact None 9 ''gs://x'' LIVE])))
     = Inl (RuntimeError PartialUpdate)
   \<and> fst (publish_succeeded_execution scenario_store scenario_heap 1 scenario_contexts
            (Some [(''model'', [0, 1])])
            (Some (scenario_report ''model'' [example_artifact None 9 ''gs://x'' LIVE])))
     \<noteq> Inl (RuntimeError TypeChanged)"
  by (simp add: publish_succeeded_execution_def merge_executor_output_def
        scenario_heap_def example_artifact_def scenario_report_def)

text \<open>
  C5, amended. A positional pair of a reported channel whose type ids differ always makes
  \<^verbatim>\<open>publish_succeeded_execution\<close> raise a \<open>RuntimeError\<close> and leave the store
  alone, whatever the other fields are; the error is the type error of line 102 when the
  subset check passes, every channel before it in the skeleton's iteration order passes its
  own checks, and the channel itself has as many reported artifacts as the skeleton lists.
  Pairs are formed by position only.
\<close>

theorem C5_type_mismatch:
  assumes "map_of (eo_output_artifacts eo) key = Some updated"
    and "i < length artifact_list" and "i < length (artifacts updated)"
    and "art_type_id (h (artifact_list ! i)) \<noteq> art_type_id (artifacts updated ! i)"
  shows "(\<exists>k. fst (publish_succeeded_execution store h execution_id contexts
                    (Some (pre @ (key, artifact_list) # post)) (Some eo))
               = Inl (RuntimeError k))
       \<and> snd (snd (publish_succeeded_execution store h execution_id contexts
                    (Some (pre @ (key, artifact_list) # post)) (Some eo))) = store
       \<and> (set (map fst (eo_output_artifacts eo))
              \<subseteq> set (map fst (pre @ (key, artifact_list) # post))
            \<and> list_all (channel_passes h eo) pre
            \<and> length artifact_list = length (artifacts updated)
          \<longrightarrow> fst (publish_succeeded_execution store h execution_id contexts
                    (Some (pre @ (key, artifact_list) # post)) (Some eo))
               = Inl (RuntimeError TypeChanged))"
proof -
  let ?m = "pre @ (key, artifact_list) # post"
  let ?p = "publish_succeeded_execution store h execution_id contexts (Some ?m) (Some eo)"
  from assms have nf: "\<not> channel_passes h eo (key, artifact_list)"
    by (intro channel_fails_reported [of eo key updated]) auto
  then have "\<not> list_all (channel_passes h eo) ?m" by simp
  then have mc: "fst (merge_channels h eo ?m) \<noteq> Inr ()"
    by (simp add: merge_channels_result)
  have "fst (merge_executor_output h (Some eo) ?m) \<noteq> Inr ()"
    using mc by (simp add: merge_executor_output_def)
  then obtain e where e: "fst (merge_executor_output h (Some eo) ?m) = Inl e"
    by (cases "fst (merge_executor_output h (Some eo) ?m)") auto
  then obtain k where k: "e = RuntimeError k"
    by (auto dest: merge_executor_output_error_kind)
  have res: "?p = (Inl e, snd (merge_executor_output h (Some eo) ?m), store)"
    using publish_succeeded_merge_error [of h "Some eo" "Some ?m" e store execution_id contexts] e
    by simp
  have first: "fst ?p = Inl (RuntimeError TypeChanged)"
    if sub: "set (map fst (eo_output_artifacts eo)) \<subseteq> set (map fst ?m)"
      and pre: "list_all (channel_passes h eo) pre"
      and len: "length artifact_list = length (artifacts updated)"
  proof -
    have "fst (merge_channels h eo ?m) = fst (merge_channels h eo [(key, artifact_list)])"
      using pre nf by (rule merge_channels_first_failure(1))
    also have "\<dots> = Inl (RuntimeError TypeChanged)"
      using merge_channels_single [of h eo "(key, artifact_list)"] assms(1) len nf
      by (simp del: merge_channels.simps)
    finally have "fst (merge_executor_output h (Some eo) ?m) = Inl (RuntimeError TypeChanged)"
      using sub by (simp add: merge_executor_output_def)
    with e res show ?thesis by simp
  qed
  from res k first show ?thesis by simp
qed

theorem C5_type_mismatch_witness:
  "map_of (eo_output_artifacts
             (scenario_report ''model'' [example_artifact (Some 7) 9 ''/tmp/m1'' PENDING]))
      ''model''
     = Some \<lparr>artifacts = [example_artifact (Some 7) 9 ''/tmp/m1'' PENDING]\<rparr>
   \<and> (0::nat) < length [0::nat]
   \<and> art_type_id (scenario_heap ([0] ! 0))
       \<noteq> art_type_id ([example_artifact (Some 7) 9 ''/tmp/m1'' PENDING] ! 0)
   \<and> fst (publish_succeeded_execution scenario_store scenario_heap 1 scenario_contexts
            (Some [(''model'', [0])])
            (Some (scenario_report ''model'' [example_artifact (Some 7) 9 ''/tmp/m1'' PENDING])))
     = Inl (RuntimeError TypeChanged)
   \<and> snd (snd (publish_succeeded_execution scenario_store scenario_heap 1 scenario_contexts
            (Some [(''model'', [0])])
            (Some (scenario_report ''model''
                     [example_artifact (Some 7) 9 ''/tmp/m1'' PENDING]))))
     = scenario_store"
  using C5_type_mismatch [of
      "scenario_report ''model'' [example_artifact (Some 7) 9 ''/tmp/m1'' PENDING]" "''model''"
      "\<lparr>artifacts = [example_artifact (Some 7) 9 ''/tmp/m1'' PENDING]\<rparr>" 0 "[0]"
      scenario_heap scenario_store 1 scenario_contexts "[]" "[]"]
  by (simp add: scenario_report_def scenario_heap_def example_artifact_def)

text \<open>
  C2, as stated, does not hold for \<^verbatim>\<open>publish_succeeded_execution\<close>: the lookup is
  its last step but one. With an execution id that no stored execution has and a report with
  an unknown channel, the call raises the error of the subset check, not the lookup error.
\<close>

theorem C2_counterexample:
  "length (get_executions_by_id scenario_store [2]) \<noteq> 1
   \<and> fst (publish_succeeded_execution scenario_store scenario_heap 2 scenario_contexts
            (Some [(''model'', [0])])
            (Some (scenario_report ''extra'' [example_artifact None 5 ''gs://x'' LIVE])))
     = Inl (RuntimeError
              (MoreKeys (scenario_report ''extra'' [example_artifact None 5 ''gs://x'' LIVE])
                 [(''model'', [0])]))
   \<and> fst (publish_succeeded_execution scenario_store scenario_heap 2 scenario_contexts
            (Some [(''model'', [0])])
            (Some (scenario_report ''extra'' [example_artifact None 5 ''gs://x'' LIVE])))
     \<noteq> Inl ValueError"
  by (simp add: publish_succeeded_execution_def merge_executor_output_def
        scenario_report_def get_executions_by_id_def scenario_store_def)

text \<open>
  C2, amended. When the execution id does not resolve to exactly one stored execution,
  \<^verbatim>\<open>publish_cached_execution\<close>, \<^verbatim>\<open>publish_failed_execution\<close> and
  \<^verbatim>\<open>publish_internal_execution\<close> raise the lookup error (the \<open>ValueError\<close> of
  the unpacking) and write nothing. \<^verbatim>\<open>publish_succeeded_execution\<close> fails and
  writes nothing as well; its error is the lookup error when the merge of lines 86 to 103
  passes, and the merge's own error otherwise, since the merge runs first.
\<close>

theorem C2_lookup_failure:
  assumes "length (get_executions_by_id store [execution_id]) \<noteq> 1"
  shows "publish_cached_execution store h contexts execution_id output_artifacts
           = (Inl ValueError, store)
       \<and> publish_failed_execution store h contexts execution_id = (Inl ValueError, store)
       \<and> publish_internal_execution store h contexts execution_id output_artifacts
           = (Inl ValueError, store)
       \<and> fst (publish_succeeded_execution store h execution_id contexts output_artifacts
                executor_output)
           = (case fst (merge_executor_output h executor_output
                          (case output_artifacts of None \<Rightarrow> [] | Some m \<Rightarrow> m)) of
                Inl e \<Rightarrow> Inl e | Inr u \<Rightarrow> Inl ValueError)
       \<and> snd (snd (publish_succeeded_execution store h execution_id contexts output_artifacts
                executor_output)) = store"
proof -
  from assms have u: "unpack_single (get_executions_by_id store [execution_id]) = Inl ValueError"
    by (simp add: unpack_single_Inl)
  obtain r h1 where m: "merge_executor_output h executor_output
                          (case output_artifacts of None \<Rightarrow> [] | Some m \<Rightarrow> m) = (r, h1)"
    by (cases "merge_executor_output h executor_output
                 (case output_artifacts of None \<Rightarrow> [] | Some m \<Rightarrow> m)")
  show ?thesis
    using u m
    by (cases r)
       (simp_all add: publish_cached_execution_def publish_failed_execution_def
          publish_internal_execution_def publish_succeeded_execution_def Let_def)
qed

theorem C2_lookup_failure_witness:
  "length (get_executions_by_id scenario_store [2]) \<noteq> 1
   \<and> publish_cached_execution scenario_store scenario_heap scenario_contexts 2
        (Some [(''model'', [0])]) = (Inl ValueError, scenario_store)
   \<and> publish_failed_execution scenario_store scenario_heap scenario_contexts 2
        = (Inl ValueError, scenario_store)
   \<and> publish_internal_execution scenario_store scenario_heap scenario_contexts 2
        (Some [(''model'', [0])]) = (Inl ValueError, scenario_store)
   \<and> fst (publish_succeeded_execution scenario_store scenario_heap 2 scenario_contexts
            (Some [(''model'', [0])]) None) = Inl ValueError
   \<and> snd (snd (publish_succeeded_execution scenario_store scenario_heap 2 scenario_contexts
            (Some [(''model'', [0])]) None)) = scenario_store"
proof -
  have l: "length (get_executions_by_id scenario_store [2]) \<noteq> 1"
    by (simp add: get_executions_by_id_def scenario_store_def)
  from C2_lookup_failure [OF l, of scenario_heap scenario_contexts "Some [(''model'', [0])]" None]
    l show ?thesis
    by (simp add: merge_executor_output_def)
qed

text \<open>
  C1, as stated, does not hold: \<^verbatim>\<open>CopyFrom\<close> replaces the whole message, its id
  included. The skeleton artifact 0 has the store id 7; the report for its slot has the same
  type and no id; the call succeeds and artifact 0 has no id any more.
\<close>

theorem C1_counterexample:
  "art_id (scenario_heap 0) = Some 7
   \<and> fst (publish_succeeded_execution scenario_store scenario_heap 1 scenario_contexts
            (Some [(''model'', [0])])
            (Some (scenario_report ''model'' [example_artifact None 5 ''gs://x'' PENDING])))
     = Inr ()
   \<and> art_id (fst (snd (publish_succeeded_execution scenario_store scenario_heap 1
                          scenario_contexts (Some [(''model'', [0])])
                          (Some (scenario_report ''model''
                                   [example_artifact None 5 ''gs://x'' PENDING])))) 0)
     = None"
  by (simp add: publish_defs scenario_defs)

text \<open>
  C1, amended. Let the subset check pass, let the channels before the channel \<open>key\<close>
  pass their checks, let that channel be reported with as many artifacts as the skeleton
  lists, and let its pairs up to and including position \<open>i\<close> have equal type ids: the
  pair at position \<open>i\<close> is reached and passes. Then the message of its skeleton artifact
  is overwritten whole by the reported message, id included. Provided the same artifact object
  is not listed again later in the skeleton (a later copy would replace the message once
  more), the artifact holds after the call the reported message: with state \<open>LIVE\<close> when
  every channel has passed its checks, whether or not the lookup of the execution succeeds
  afterwards, and exactly as reported when a later check has raised. The id the skeleton
  artifact had is not kept.
\<close>

theorem C1_overwritten_from_report:
  assumes sub: "set (map fst (eo_output_artifacts eo))
                  \<subseteq> set (map fst (case output_artifacts of None \<Rightarrow> [] | Some m \<Rightarrow> m))"
    and skel: "(case output_artifacts of None \<Rightarrow> [] | Some m \<Rightarrow> m)
                 = pre @ (key, artifact_list) # post"
    and pre: "list_all (channel_passes h eo) pre"
    and some: "map_of (eo_output_artifacts eo) key = Some updated"
    and len: "length artifact_list = length (artifacts updated)"
    and i: "i < length artifact_list"
    and ok: "\<forall>l \<le> i. art_type_id (h (artifact_list ! l))
                        = art_type_id (artifacts updated ! l)"
    and once: "artifact_list ! i
                 \<notin> set (drop (Suc i) artifact_list) \<union> set (artifact_objects post)"
  shows "fst (snd (publish_succeeded_execution store h execution_id contexts output_artifacts
                     (Some eo))) (artifact_list ! i)
         = (if list_all (channel_passes h eo)
                 (case output_artifacts of None \<Rightarrow> [] | Some m \<Rightarrow> m)
            then (artifacts updated ! i)\<lparr>art_state := LIVE\<rparr>
            else artifacts updated ! i)"
proof -
  let ?m = "case output_artifacts of None \<Rightarrow> [] | Some m \<Rightarrow> m"
  let ?p = "publish_succeeded_execution store h execution_id contexts output_artifacts
              (Some eo)"
  have mc: "merge_executor_output h (Some eo) ?m = merge_channels h eo ?m"
    using sub by (simp add: merge_executor_output_def)
  from once have later: "artifact_list ! i \<notin> set (drop (Suc i) artifact_list)"
    and post: "artifact_list ! i \<notin> set (artifact_objects post)" by simp_all
  have "snd (merge_channels h eo (pre @ (key, artifact_list) # post)) (artifact_list ! i)
          = artifacts updated ! i"
    using pre some len i _ later post
  proof (rule merge_channels_last_copy)
    fix l assume "l \<le> i"
    with ok show "art_type_id (h (artifact_list ! l)) = art_type_id (artifacts updated ! l)"
      by simp
  qed
  with skel have copied: "snd (merge_channels h eo ?m) (artifact_list ! i)
                            = artifacts updated ! i"
    by simp
  have mem: "artifact_list ! i \<in> set (artifact_objects ?m)"
    using i skel by (simp add: artifact_objects_split)
  show ?thesis
  proof (cases "list_all (channel_passes h eo) ?m")
    case True
    then have m: "fst (merge_executor_output h (Some eo) ?m) = Inr ()"
      by (simp add: mc merge_channels_result)
    have "fst (snd ?p) = mark_live (snd (merge_executor_output h (Some eo) ?m)) ?m"
      using m by (rule publish_succeeded_merge_ok)
    with True copied mem show ?thesis by (simp add: mc mark_live_eq)
  next
    case False
    then have "fst (merge_executor_output h (Some eo) ?m) \<noteq> Inr ()"
      by (simp add: mc merge_channels_result)
    then obtain e where e: "fst (merge_executor_output h (Some eo) ?m) = Inl e"
      by (cases "fst (merge_executor_output h (Some eo) ?m)") auto
    from publish_succeeded_merge_error [OF e]
    have "fst (snd ?p) = snd (merge_executor_output h (Some eo) ?m)" by simp
    with False copied show ?thesis by (simp add: mc)
  qed
qed

theorem C1_overwritten_from_report_witness:
  "set (map fst (eo_output_artifacts
                   (scenario_report ''model'' [example_artifact None 5 ''gs://x'' PENDING])))
     \<subseteq> set (map fst [(''model'', [0::nat])])
   \<and> list_all (channel_passes scenario_heap
                  (scenario_report ''model'' [example_artifact None 5 ''gs://x'' PENDING]))
        [(''model'', [0])]
   \<and> map_of (eo_output_artifacts
               (scenario_report ''model'' [example_artifact None 5 ''gs://x'' PENDING]))
        ''model'' = Some \<lparr>artifacts = [example_artifact None 5 ''gs://x'' PENDING]\<rparr>
   \<and> length [0::nat] = length [example_artifact None 5 ''gs://x'' PENDING]
   \<and> art_type_id (scenario_heap 0)
       = art_type_id (example_artifact None 5 ''gs://x'' PENDING)
   \<and> art_id (scenario_heap 0) = Some 7
   \<and> fst (publish_succeeded_execution scenario_store scenario_heap 1 scenario_contexts
            (Some [(''model'', [0])])
            (Some (scenario_report ''model'' [example_artifact None 5 ''gs://x'' PENDING])))
     = Inr ()
   \<and> fst (snd (publish_succeeded_execution scenario_store scenario_heap 1 scenario_contexts
                  (Some [(''model'', [0])])
                  (Some (scenario_report ''model''
                           [example_artifact None 5 ''gs://x'' PENDING])))) 0
     = example_artifact None 5 ''gs://x'' LIVE
   \<and> set (map fst (eo_output_artifacts scenario_two_channels))
       \<subseteq> set (map fst [(''a'', [0::nat]), (''b'', [1, 2])])
   \<and> map_of (eo_output_artifacts scenario_two_channels) ''a''
       = Some \<lparr>artifacts = [example_artifact None 5 ''gs://a'' ARTIFACT_UNKNOWN]\<rparr>
   \<and> art_type_id (scenario_heap 0)
       = art_type_id (example_artifact None 5 ''gs://a'' ARTIFACT_UNKNOWN)
   \<and> \<not> list_all (channel_passes scenario_heap scenario_two_channels)
          [(''a'', [0]), (''b'', [1, 2])]
   \<and> fst (publish_succeeded_execution scenario_store scenario_heap 1 scenario_contexts
            (Some [(''a'', [0]), (''b'', [1, 2])]) (Some scenario_two_channels))
     = Inl (RuntimeError PartialUpdate)
   \<and> fst (snd (publish_succeeded_execution scenario_store scenario_heap 1 scenario_contexts
            (Some [(''a'', [0]), (''b'', [1, 2])]) (Some scenario_two_channels))) 0
     = example_artifact None 5 ''gs://a'' ARTIFACT_UNKNOWN
   \<and> set (map fst (eo_output_artifacts
                     (scenario_report ''model''
                        [example_artifact None 5 ''gs://x'' PENDING,
                         example_artifact (Some 9) 5 ''gs://y'' PENDING])))
       \<subseteq> set (map fst [(''model'', [0::nat, 0])])
   \<and> list_all (channel_passes scenario_heap
                  (scenario_report ''model''
                     [example_artifact None 5 ''gs://x'' PENDING,
                      example_artifact (Some 9) 5 ''gs://y'' PENDING]))
        [(''model'', [0, 0])]
   \<and> fst (snd (publish_succeeded_execution scenario_store scenario_heap 1 scenario_contexts
                  (Some [(''model'', [0, 0])])
                  (Some (scenario_report ''model''
                           [example_artifact None 5 ''gs://x'' PENDING,
                            example_artifact (Some 9) 5 ''gs://y'' PENDING])))) 0
     = example_artifact (Some 9) 5 ''gs://y'' LIVE"
proof -
  let ?r3 = "scenario_report ''model'' [example_artifact None 5 ''gs://x'' PENDING,
                                        example_artifact (Some 9) 5 ''gs://y'' PENDING]"
  have s3: "set (map fst (eo_output_artifacts ?r3))
              \<subseteq> set (map fst [(''model'', [0::nat, 0])])"
    by (simp add: scenario_report_def)
  have p3: "list_all (channel_passes scenario_heap ?r3) [(''model'', [0, 0])]"
    by (simp add: channel_passes_def pairs_match_def scenario_report_def
          scenario_heap_def example_artifact_def)
  have u3: "map_of (eo_output_artifacts ?r3) ''model''
              = Some \<lparr>artifacts = [example_artifact None 5 ''gs://x'' PENDING,
                                    example_artifact (Some 9) 5 ''gs://y'' PENDING]\<rparr>"
    by (simp add: scenario_report_def)
  have t3: "art_type_id (scenario_heap 0) = 5"
    by (simp add: scenario_heap_def example_artifact_def)
  have r3: "fst (snd (publish_succeeded_execution scenario_store scenario_heap 1
                        scenario_contexts (Some [(''model'', [0, 0])]) (Some ?r3))) 0
              = example_artifact (Some 9) 5 ''gs://y'' LIVE"
    using C1_overwritten_from_report [where output_artifacts = "Some [(''model'', [0, 0])]"
        and eo = ?r3 and pre = "[]" and key = "''model''" and artifact_list = "[0, 0]"
        and post = "[]" and h = scenario_heap and i = 1
        and updated = "\<lparr>artifacts = [example_artifact None 5 ''gs://x'' PENDING,
                                      example_artifact (Some 9) 5 ''gs://y'' PENDING]\<rparr>"
        and store = scenario_store and execution_id = 1 and contexts = scenario_contexts]
      s3 p3 u3 t3
    by (simp add: artifact_objects_def example_artifact_def All_less_Suc le_Suc_eq
          all_conj_distrib)
  let ?r = "scenario_report ''model'' [example_artifact None 5 ''gs://x'' PENDING]"
  have s: "set (map fst (eo_output_artifacts ?r)) \<subseteq> set (map fst [(''model'', [0::nat])])"
    by (simp add: scenario_report_def)
  have p: "list_all (channel_passes scenario_heap ?r) [(''model'', [0])]"
    by (simp add: channel_passes_def pairs_match_def scenario_report_def
          scenario_heap_def example_artifact_def)
  have u: "map_of (eo_output_artifacts ?r) ''model''
             = Some \<lparr>artifacts = [example_artifact None 5 ''gs://x'' PENDING]\<rparr>"
    by (simp add: scenario_report_def)
  have t: "art_type_id (scenario_heap 0)
             = art_type_id (example_artifact None 5 ''gs://x'' PENDING)"
    by (simp add: scenario_heap_def example_artifact_def)
  have id: "art_id (scenario_heap 0) = Some 7"
    by (simp add: scenario_heap_def example_artifact_def)
  have f: "fst (publish_succeeded_execution scenario_store scenario_heap 1 scenario_contexts
          (Some [(''model'', [0])]) (Some ?r)) = Inr ()"
    by (simp add: publish_defs scenario_defs)
  have r1: "fst (snd (publish_succeeded_execution scenario_store scenario_heap 1
                        scenario_contexts (Some [(''model'', [0])]) (Some ?r))) 0
              = example_artifact None 5 ''gs://x'' LIVE"
    using C1_overwritten_from_report [where output_artifacts = "Some [(''model'', [0])]"
        and eo = ?r and pre = "[]" and key = "''model''" and artifact_list = "[0]"
        and post = "[]" and h = scenario_heap and i = 0
        and updated = "\<lparr>artifacts = [example_artifact None 5 ''gs://x'' PENDING]\<rparr>"
        and store = scenario_store and execution_id = 1 and contexts = scenario_contexts]
      s p u t
    by (simp add: artifact_objects_def example_artifact_def)
  have s2: "set (map fst (eo_output_artifacts scenario_two_channels))
              \<subseteq> set (map fst [(''a'', [0::nat]), (''b'', [1, 2])])"
    by (simp add: scenario_two_channels_def)
  have u2: "map_of (eo_output_artifacts scenario_two_channels) ''a''
              = Some \<lparr>artifacts = [example_artifact None 5 ''gs://a'' ARTIFACT_UNKNOWN]\<rparr>"
    by (simp add: scenario_two_channels_def)
  have t2: "art_type_id (scenario_heap 0)
              = art_type_id (example_artifact None 5 ''gs://a'' ARTIFACT_UNKNOWN)"
    by (simp add: scenario_heap_def example_artifact_def)
  have n2: "\<not> list_all (channel_passes scenario_heap scenario_two_channels)
              [(''a'', [0]), (''b'', [1, 2])]"
    by (simp add: channel_passes_def scenario_two_channels_def)
  have n2b: "\<not> channel_passes scenario_heap scenario_two_channels (''b'', [1, 2])"
    by (simp add: channel_passes_def scenario_two_channels_def)
  have e2: "fst (publish_succeeded_execution scenario_store scenario_heap 1 scenario_contexts
            (Some [(''a'', [0]), (''b'', [1, 2])]) (Some scenario_two_channels))
     = Inl (RuntimeError PartialUpdate)"
    by (simp add: publish_succeeded_execution_def merge_executor_output_def
          scenario_two_channels_def scenario_heap_def example_artifact_def)
  have r2: "fst (snd (publish_succeeded_execution scenario_store scenario_heap 1
                        scenario_contexts (Some [(''a'', [0]), (''b'', [1, 2])])
                        (Some scenario_two_channels))) 0
              = example_artifact None 5 ''gs://a'' ARTIFACT_UNKNOWN"
    using C1_overwritten_from_report [where output_artifacts = "Some [(''a'', [0]), (''b'', [1, 2])]"
        and eo = scenario_two_channels and pre = "[]" and key = "''a''"
        and artifact_list = "[0]" and post = "[(''b'', [1, 2])]" and h = scenario_heap
        and i = 0
        and updated = "\<lparr>artifacts = [example_artifact None 5 ''gs://a'' ARTIFACT_UNKNOWN]\<rparr>"
        and store = scenario_store and execution_id = 1 and contexts = scenario_contexts]
      s2 u2 t2 n2b
    by (simp add: artifact_objects_def)
  from s p u t id f r1 s2 u2 t2 n2 e2 r2 s3 p3 r3 show ?thesis by simp
qed

text \<open>
  C10. \<^verbatim>\<open>publish_succeeded_execution\<close> works on the caller's artifact objects and
  undoes nothing when it raises. In each of the three ways of raising once the subset check is
  behind, the call gives back the error, the store as it was, and the artifact objects with
  every write made up to the raise.
  \<^item> No executor output and the lookup of the execution fails: the lookup error; every
    artifact of the skeleton has been marked \<open>LIVE\<close> and is otherwise as before.
  \<^item> An executor output whose channels all pass and the lookup fails: the lookup error;
    every artifact of the skeleton holds the last message copied into it (its own, if its
    channel was not reported), marked \<open>LIVE\<close>.
  \<^item> A channel fails its checks after the channels \<open>pre\<close> have passed theirs: a
    \<open>RuntimeError\<close>; the artifacts hold the copies made for the reported pairs of
    \<open>pre\<close> and for the pairs of the failing channel before the first one with different
    type ids (none when the length check failed), and nothing has been marked.

  In all three, an object that the skeleton does not list is unchanged.
\<close>

theorem C10_no_rollback:
  "(length (get_executions_by_id store [execution_id]) \<noteq> 1
    \<longrightarrow> publish_succeeded_execution store h execution_id contexts output_artifacts None
        = (Inl ValueError,
           (\<lambda>a. if a \<in> set (artifact_objects
                                (case output_artifacts of None \<Rightarrow> [] | Some m \<Rightarrow> m))
                then (h a)\<lparr>art_state := LIVE\<rparr> else h a),
           store))
   \<and> (set (map fst (eo_output_artifacts eo))
         \<subseteq> set (map fst (case output_artifacts of None \<Rightarrow> [] | Some m \<Rightarrow> m))
       \<and> list_all (channel_passes h eo) (case output_artifacts of None \<Rightarrow> [] | Some m \<Rightarrow> m)
       \<and> length (get_executions_by_id store [execution_id]) \<noteq> 1
    \<longrightarrow> publish_succeeded_execution store h execution_id contexts output_artifacts (Some eo)
        = (Inl ValueError,
           (\<lambda>a. if a \<in> set (artifact_objects
                                (case output_artifacts of None \<Rightarrow> [] | Some m \<Rightarrow> m))
                then (overwrite h
                        (reported_pairs eo
                           (case output_artifacts of None \<Rightarrow> [] | Some m \<Rightarrow> m)) a)
                     \<lparr>art_state := LIVE\<rparr>
                else h a),
           store))
   \<and> (set (map fst (eo_output_artifacts eo))
         \<subseteq> set (map fst (case output_artifacts of None \<Rightarrow> [] | Some m \<Rightarrow> m))
       \<and> (case output_artifacts of None \<Rightarrow> [] | Some m \<Rightarrow> m)
           = pre @ (key, artifact_list) # post
       \<and> list_all (channel_passes h eo) pre
       \<and> \<not> channel_passes h eo (key, artifact_list)
    \<longrightarrow> (\<exists>k. publish_succeeded_execution store h execution_id contexts output_artifacts
                (Some eo)
              = (Inl (RuntimeError k),
                 overwrite h (reported_pairs eo pre @ copied_pairs h eo (key, artifact_list)),
                 store)))"
proof -
  let ?m = "case output_artifacts of None \<Rightarrow> [] | Some m \<Rightarrow> m"
  have A: "publish_succeeded_execution store h execution_id contexts output_artifacts None
        = (Inl ValueError,
           (\<lambda>a. if a \<in> set (artifact_objects ?m) then (h a)\<lparr>art_state := LIVE\<rparr> else h a),
           store)"
    if nf: "length (get_executions_by_id store [execution_id]) \<noteq> 1"
  proof -
    have "merge_executor_output h None ?m = (Inr (), h)"
      by (simp add: merge_executor_output_def)
    from publish_succeeded_lookup_failure_eq [OF this nf]
    show ?thesis by (simp add: mark_live_eq)
  qed
  have B: "publish_succeeded_execution store h execution_id contexts output_artifacts (Some eo)
        = (Inl ValueError,
           (\<lambda>a. if a \<in> set (artifact_objects ?m)
                then (overwrite h (reported_pairs eo ?m) a)\<lparr>art_state := LIVE\<rparr>
                else h a),
           store)"
    if sub: "set (map fst (eo_output_artifacts eo)) \<subseteq> set (map fst ?m)"
      and all: "list_all (channel_passes h eo) ?m"
      and nf: "length (get_executions_by_id store [execution_id]) \<noteq> 1"
  proof -
    have mc: "merge_executor_output h (Some eo) ?m = merge_channels h eo ?m"
      using sub by (simp add: merge_executor_output_def)
    have "fst (merge_channels h eo ?m) = Inr ()"
      using all by (simp add: merge_channels_result)
    moreover have "snd (merge_channels h eo ?m) = overwrite h (reported_pairs eo ?m)"
      using all by (rule merge_channels_overwrite)
    ultimately have "merge_executor_output h (Some eo) ?m
                       = (Inr (), overwrite h (reported_pairs eo ?m))"
      unfolding mc by (cases "merge_channels h eo ?m") simp
    from publish_succeeded_lookup_failure_eq [OF this nf]
    have "publish_succeeded_execution store h execution_id contexts output_artifacts (Some eo)
            = (Inl ValueError, mark_live (overwrite h (reported_pairs eo ?m)) ?m, store)" .
    moreover have "mark_live (overwrite h (reported_pairs eo ?m)) ?m
            = (\<lambda>a. if a \<in> set (artifact_objects ?m)
                   then (overwrite h (reported_pairs eo ?m) a)\<lparr>art_state := LIVE\<rparr>
                   else h a)"
      by (auto simp: mark_live_eq fun_eq_iff overwrite_reported_frame)
    ultimately show ?thesis by simp
  qed
  have C: "\<exists>k. publish_succeeded_execution store h execution_id contexts output_artifacts
                (Some eo)
              = (Inl (RuntimeError k),
                 overwrite h (reported_pairs eo pre @ copied_pairs h eo (key, artifact_list)),
                 store)"
    if sub: "set (map fst (eo_output_artifacts eo)) \<subseteq> set (map fst ?m)"
      and skel: "?m = pre @ (key, artifact_list) # post"
      and pre: "list_all (channel_passes h eo) pre"
      and nf: "\<not> channel_passes h eo (key, artifact_list)"
  proof -
    have mc: "merge_executor_output h (Some eo) ?m = merge_channels h eo ?m"
      using sub by (simp add: merge_executor_output_def)
    from nf skel have "\<not> list_all (channel_passes h eo) ?m" by simp
    then have "fst (merge_executor_output h (Some eo) ?m) \<noteq> Inr ()"
      by (simp add: mc merge_channels_result)
    then obtain e where e: "fst (merge_executor_output h (Some eo) ?m) = Inl e"
      by (cases "fst (merge_executor_output h (Some eo) ?m)") auto
    then obtain k where k: "e = RuntimeError k"
      by (auto dest: merge_executor_output_error_kind)
    have "snd (merge_channels h eo (pre @ (key, artifact_list) # post))
                = overwrite h (reported_pairs eo pre @ copied_pairs h eo (key, artifact_list))"
      using pre nf by (rule merge_channels_failure_heap)
    with mc skel
    have hp: "snd (merge_executor_output h (Some eo) ?m)
                = overwrite h (reported_pairs eo pre @ copied_pairs h eo (key, artifact_list))"
      by simp
    from publish_succeeded_merge_error [OF e] hp k show ?thesis by simp
  qed
  from A B C show ?thesis by blast
qed

theorem C10_no_rollback_witness:
  "length (get_executions_by_id scenario_store [2]) \<noteq> 1
   \<and> publish_succeeded_execution scenario_store scenario_heap 2 scenario_contexts
          (Some [(''model'', [0])]) None
     = (Inl ValueError,
        scenario_heap(0 := example_artifact (Some 7) 5 ''/tmp/m1'' LIVE),
        scenario_store)
   \<and> set (map fst (eo_output_artifacts
                     (scenario_report ''a'' [example_artifact None 5 ''gs://a'' PENDING])))
       \<subseteq> set (map fst [(''a'', [0::nat])])
   \<and> list_all (channel_passes scenario_heap
                  (scenario_report ''a'' [example_artifact None 5 ''gs://a'' PENDING]))
        [(''a'', [0])]
   \<and> publish_succeeded_execution scenario_store scenario_heap 2 scenario_contexts
            (Some [(''a'', [0])])
            (Some (scenario_report ''a'' [example_artifact None 5 ''gs://a'' PENDING]))
     = (Inl ValueError,
        scenario_heap(0 := example_artifact None 5 ''gs://a'' LIVE),
        scenario_store)
   \<and> set (map fst (eo_output_artifacts scenario_two_channels))
       \<subseteq> set (map fst [(''a'', [0::nat]), (''b'', [1, 2])])
   \<and> list_all (channel_passes scenario_heap scenario_two_channels) [(''a'', [0])]
   \<and> \<not> channel_passes scenario_heap scenario_two_channels (''b'', [1, 2])
   \<and> publish_succeeded_execution scenario_store scenario_heap 1 scenario_contexts
            (Some [(''a'', [0]), (''b'', [1, 2])]) (Some scenario_two_channels)
     = (Inl (RuntimeError PartialUpdate),
        scenario_heap(0 := example_artifact None 5 ''gs://a'' ARTIFACT_UNKNOWN),
        scenario_store)
   \<and> set (map fst (eo_output_artifacts
                     (scenario_report ''m'' [example_artifact None 5 ''gs://x'' LIVE,
                                            example_artifact None 5 ''gs://y'' LIVE])))
       \<subseteq> set (map fst [(''m'', [0::nat, 2])])
   \<and> \<not> channel_passes scenario_heap
          (scenario_report ''m'' [example_artifact None 5 ''gs://x'' LIVE,
                                 example_artifact None 5 ''gs://y'' LIVE])
          (''m'', [0, 2])
   \<and> publish_succeeded_execution scenario_store scenario_heap 1 scenario_contexts
            (Some [(''m'', [0, 2])])
            (Some (scenario_report ''m'' [example_artifact None 5 ''gs://x'' LIVE,
                                         example_artifact None 5 ''gs://y'' LIVE]))
     = (Inl (RuntimeError TypeChanged),
        scenario_heap(0 := example_artifact None 5 ''gs://x'' LIVE),
        scenario_store)"
proof -
  let ?r4 = "scenario_report ''m'' [example_artifact None 5 ''gs://x'' LIVE,
                                   example_artifact None 5 ''gs://y'' LIVE]"
  have s4: "set (map fst (eo_output_artifacts ?r4)) \<subseteq> set (map fst [(''m'', [0::nat, 2])])"
    by (simp add: scenario_report_def)
  have n4: "\<not> channel_passes scenario_heap ?r4 (''m'', [0, 2])"
    by (simp add: channel_passes_def pairs_match_def scenario_report_def
          scenario_heap_def example_artifact_def)
  have e4: "fst (publish_succeeded_execution scenario_store scenario_heap 1 scenario_contexts
            (Some [(''m'', [0, 2])]) (Some ?r4))
     = Inl (RuntimeError TypeChanged)"
    by (simp add: publish_succeeded_execution_def merge_executor_output_def
          scenario_report_def scenario_heap_def example_artifact_def)
  have r4: "publish_succeeded_execution scenario_store scenario_heap 1 scenario_contexts
            (Some [(''m'', [0, 2])]) (Some ?r4)
     = (Inl (RuntimeError TypeChanged),
        scenario_heap(0 := example_artifact None 5 ''gs://x'' LIVE),
        scenario_store)"
    using C10_no_rollback [where store = scenario_store and execution_id = 1
        and h = scenario_heap and contexts = scenario_contexts
        and output_artifacts = "Some [(''m'', [0, 2])]"
        and eo = ?r4 and pre = "[]" and key = "''m''"
        and artifact_list = "[0, 2]" and post = "[]"] s4 n4 e4
    by (auto simp: fun_eq_iff overwrite_def reported_pairs_def copied_pairs_def type_kept_def
          scenario_report_def scenario_heap_def example_artifact_def)
  have l2: "length (get_executions_by_id scenario_store [2]) \<noteq> 1"
    by (simp add: get_executions_by_id_def scenario_store_def)
  have s2: "set (map fst (eo_output_artifacts
                     (scenario_report ''a'' [example_artifact None 5 ''gs://a'' PENDING])))
       \<subseteq> set (map fst [(''a'', [0::nat])])"
    by (simp add: scenario_report_def)
  have p2: "list_all (channel_passes scenario_heap
                  (scenario_report ''a'' [example_artifact None 5 ''gs://a'' PENDING]))
        [(''a'', [0])]"
    by (simp add: channel_passes_def pairs_match_def scenario_report_def
          scenario_heap_def example_artifact_def)
  have s1: "set (map fst (eo_output_artifacts scenario_two_channels))
              \<subseteq> set (map fst [(''a'', [0::nat]), (''b'', [1, 2])])"
    by (simp add: scenario_two_channels_def)
  have p1: "list_all (channel_passes scenario_heap scenario_two_channels) [(''a'', [0])]"
    by (simp add: channel_passes_def pairs_match_def scenario_two_channels_def
          scenario_heap_def example_artifact_def)
  have n1: "\<not> channel_passes scenario_heap scenario_two_channels (''b'', [1, 2])"
    by (simp add: channel_passes_def scenario_two_channels_def)
  have e1: "fst (publish_succeeded_execution scenario_store scenario_heap 1 scenario_contexts
            (Some [(''a'', [0]), (''b'', [1, 2])]) (Some scenario_two_channels))
     = Inl (RuntimeError PartialUpdate)"
    by (simp add: publish_succeeded_execution_def merge_executor_output_def
          scenario_two_channels_def scenario_heap_def example_artifact_def)
  have r1: "publish_succeeded_execution scenario_store scenario_heap 2 scenario_contexts
          (Some [(''model'', [0])]) None
     = (Inl ValueError,
        scenario_heap(0 := example_artifact (Some 7) 5 ''/tmp/m1'' LIVE),
        scenario_store)"
    using C10_no_rollback [where store = scenario_store and execution_id = 2
        and h = scenario_heap and contexts = scenario_contexts
        and output_artifacts = "Some [(''model'', [0])]"] l2
    by (auto simp: artifact_objects_def fun_eq_iff scenario_heap_def example_artifact_def)
  have r2: "publish_succeeded_execution scenario_store scenario_heap 2 scenario_contexts
            (Some [(''a'', [0])])
            (Some (scenario_report ''a'' [example_artifact None 5 ''gs://a'' PENDING]))
     = (Inl ValueError,
        scenario_heap(0 := example_artifact None 5 ''gs://a'' LIVE),
        scenario_store)"
    using C10_no_rollback [where store = scenario_store and execution_id = 2
        and h = scenario_heap and contexts = scenario_contexts
        and output_artifacts = "Some [(''a'', [0])]"
        and eo = "scenario_report ''a'' [example_artifact None 5 ''gs://a'' PENDING]"] l2 s2 p2
    by (auto simp: artifact_objects_def fun_eq_iff overwrite_def reported_pairs_def
          scenario_report_def example_artifact_def)
  have r3: "publish_succeeded_execution scenario_store scenario_heap 1 scenario_contexts
            (Some [(''a'', [0]), (''b'', [1, 2])]) (Some scenario_two_channels)
     = (Inl (RuntimeError PartialUpdate),
        scenario_heap(0 := example_artifact None 5 ''gs://a'' ARTIFACT_UNKNOWN),
        scenario_store)"
    using C10_no_rollback [where store = scenario_store and execution_id = 1
        and h = scenario_heap and contexts = scenario_contexts
        and output_artifacts = "Some [(''a'', [0]), (''b'', [1, 2])]"
        and eo = scenario_two_channels and pre = "[(''a'', [0])]" and key = "''b''"
        and artifact_list = "[1, 2]" and post = "[]"] s1 p1 n1 e1
    by (auto simp: fun_eq_iff overwrite_def reported_pairs_def copied_pairs_def
          scenario_two_channels_def)
  from l2 r1 s2 p2 r2 s1 p1 n1 r3 s4 n4 r4 show ?thesis by blast
qed

text \<open>
  C9. The state each operation gives the execution, with
  \<^verbatim>\<open>put_execution\<close> and \<^verbatim>\<open>prepare_execution\<close> as the specification describes
  them. On every store, \<^verbatim>\<open>register_execution\<close> returns an execution of the given type
  in state \<open>RUNNING\<close> that has an id; the store holds it as one more execution, and it is
  the one execution found under its id. On a store where the id resolves to exactly one
  execution \<open>x\<close>, each publish operation returns and leaves under that id the execution
  \<open>x\<close> with its state set: \<open>CACHED\<close> by \<^verbatim>\<open>publish_cached_execution\<close>,
  \<open>FAILED\<close> by \<^verbatim>\<open>publish_failed_execution\<close> (which adds no event and no
  artifact), \<open>COMPLETE\<close> by \<^verbatim>\<open>publish_internal_execution\<close> and, when the merge
  passes, by \<^verbatim>\<open>publish_succeeded_execution\<close>.
\<close>

theorem C9_states:
  "exec_last_known_state
     (fst (register_execution store h execution_type contexts input_artifacts exec_props))
   = RUNNING
   \<and> exec_type (fst (register_execution store h execution_type contexts input_artifacts
                       exec_props)) = execution_type
   \<and> exec_id (fst (register_execution store h execution_type contexts input_artifacts
                     exec_props)) \<noteq> None
   \<and> store_executions
        (snd (register_execution store h execution_type contexts input_artifacts exec_props))
     = store_executions store
       @ [fst (register_execution store h execution_type contexts input_artifacts exec_props)]
   \<and> get_executions_by_id
        (snd (register_execution store h execution_type contexts input_artifacts exec_props))
        [the (exec_id (fst (register_execution store h execution_type contexts
                              input_artifacts exec_props)))]
     = [fst (register_execution store h execution_type contexts input_artifacts exec_props)]
   \<and> (get_executions_by_id store [execution_id] = [x]
      \<longrightarrow> fst (publish_cached_execution store h contexts execution_id output_artifacts)
            = Inr ()
          \<and> get_executions_by_id
               (snd (publish_cached_execution store h contexts execution_id output_artifacts))
               [execution_id] = [x\<lparr>exec_last_known_state := CACHED\<rparr>]
          \<and> fst (publish_failed_execution store h contexts execution_id) = Inr ()
          \<and> get_executions_by_id
               (snd (publish_failed_execution store h contexts execution_id))
               [execution_id] = [x\<lparr>exec_last_known_state := FAILED\<rparr>]
          \<and> store_events (snd (publish_failed_execution store h contexts execution_id))
              = store_events store
          \<and> store_artifacts (snd (publish_failed_execution store h contexts execution_id))
              = store_artifacts store
          \<and> fst (publish_internal_execution store h contexts execution_id output_artifacts)
              = Inr ()
          \<and> get_executions_by_id
               (snd (publish_internal_execution store h contexts execution_id
                       output_artifacts))
               [execution_id] = [x\<lparr>exec_last_known_state := COMPLETE\<rparr>]
          \<and> (fst (merge_executor_output h executor_output
                     (case output_artifacts of None \<Rightarrow> [] | Some m \<Rightarrow> m)) = Inr ()
             \<longrightarrow> fst (publish_succeeded_execution store h execution_id contexts
                        output_artifacts executor_output) = Inr ()
                 \<and> get_executions_by_id
                      (snd (snd (publish_succeeded_execution store h execution_id contexts
                                   output_artifacts executor_output)))
                      [execution_id] = [x\<lparr>exec_last_known_state := COMPLETE\<rparr>]))"
proof -
  let ?e = "prepare_execution execution_type RUNNING exec_props"
  let ?r = "register_execution store h execution_type contexts input_artifacts exec_props"
  have noid: "exec_id ?e = None" by (simp add: prepare_execution_def)
  have reg: "fst ?r = fst (upsert_execution (store_executions store) ?e)"
    by (simp add: register_execution_def put_execution_returns)
  have regs: "store_executions (snd ?r) = snd (upsert_execution (store_executions store) ?e)"
    by (simp add: register_execution_def put_execution_executions)
  have r1: "exec_last_known_state (fst ?r) = RUNNING"
    unfolding reg upsert_execution_new(2) [OF noid] by (simp add: prepare_execution_def)
  have r1b: "exec_type (fst ?r) = execution_type"
    unfolding reg upsert_execution_fresh(2) [OF noid] by (simp add: prepare_execution_def)
  have r2: "exec_id (fst ?r) \<noteq> None"
    unfolding reg by (rule upsert_execution_new(1) [OF noid])
  have r3: "store_executions (snd ?r) = store_executions store @ [fst ?r]"
    unfolding reg regs by (rule upsert_execution_fresh(1) [OF noid])
  from r2 obtain i where i: "exec_id (fst ?r) = Some i" by auto
  have "filter (\<lambda>y. exec_id y = exec_id (fst ?r)) (store_executions (snd ?r)) = [fst ?r]"
    unfolding reg regs by (rule upsert_execution_fresh(3) [OF noid])
  then have r4: "get_executions_by_id (snd ?r) [the (exec_id (fst ?r))] = [fst ?r]"
    by (simp add: get_executions_by_id_single i)
  have P: "fst (publish_cached_execution store h contexts execution_id output_artifacts)
            = Inr ()
          \<and> get_executions_by_id
               (snd (publish_cached_execution store h contexts execution_id output_artifacts))
               [execution_id] = [x\<lparr>exec_last_known_state := CACHED\<rparr>]
          \<and> fst (publish_failed_execution store h contexts execution_id) = Inr ()
          \<and> get_executions_by_id
               (snd (publish_failed_execution store h contexts execution_id))
               [execution_id] = [x\<lparr>exec_last_known_state := FAILED\<rparr>]
          \<and> store_events (snd (publish_failed_execution store h contexts execution_id))
              = store_events store
          \<and> store_artifacts (snd (publish_failed_execution store h contexts execution_id))
              = store_artifacts store
          \<and> fst (publish_internal_execution store h contexts execution_id output_artifacts)
              = Inr ()
          \<and> get_executions_by_id
               (snd (publish_internal_execution store h contexts execution_id
                       output_artifacts))
               [execution_id] = [x\<lparr>exec_last_known_state := COMPLETE\<rparr>]
          \<and> (fst (merge_executor_output h executor_output
                     (case output_artifacts of None \<Rightarrow> [] | Some m \<Rightarrow> m)) = Inr ()
             \<longrightarrow> fst (publish_succeeded_execution store h execution_id contexts
                        output_artifacts executor_output) = Inr ()
                 \<and> get_executions_by_id
                      (snd (snd (publish_succeeded_execution store h execution_id contexts
                                   output_artifacts executor_output)))
                      [execution_id] = [x\<lparr>exec_last_known_state := COMPLETE\<rparr>])"
    if found: "get_executions_by_id store [execution_id] = [x]"
  proof -
    from found have u: "unpack_single (get_executions_by_id store [execution_id]) = Inr x"
      by (simp add: unpack_single_Inr)
    from found have xid: "exec_id x = Some execution_id" by (rule found_execution(1))
    have upd: "get_executions_by_id
                 (snd (put_execution store h' (x\<lparr>exec_last_known_state := st\<rparr>) contexts ins
                         outs t)) [execution_id] = [x\<lparr>exec_last_known_state := st\<rparr>]"
      for h' st ins outs t
      using found by (rule put_execution_updates) (simp add: xid)
    have c: "fst (publish_cached_execution store h contexts execution_id output_artifacts)
               = Inr ()"
        "get_executions_by_id
           (snd (publish_cached_execution store h contexts execution_id output_artifacts))
           [execution_id] = [x\<lparr>exec_last_known_state := CACHED\<rparr>]"
      using u upd by (simp_all add: publish_cached_execution_def)
    have f: "fst (publish_failed_execution store h contexts execution_id) = Inr ()"
        "get_executions_by_id (snd (publish_failed_execution store h contexts execution_id))
           [execution_id] = [x\<lparr>exec_last_known_state := FAILED\<rparr>]"
      using u upd by (simp_all add: publish_failed_execution_def)
    have f2: "store_events (snd (publish_failed_execution store h contexts execution_id))
                = store_events store"
        "store_artifacts (snd (publish_failed_execution store h contexts execution_id))
                = store_artifacts store"
      using u
      by (simp_all add: publish_failed_execution_def put_execution_no_inputs artifacts_of_def)
    have i: "fst (publish_internal_execution store h contexts execution_id output_artifacts)
               = Inr ()"
        "get_executions_by_id
           (snd (publish_internal_execution store h contexts execution_id output_artifacts))
           [execution_id] = [x\<lparr>exec_last_known_state := COMPLETE\<rparr>]"
      using u upd by (simp_all add: publish_internal_execution_def)
    have s: "fst (publish_succeeded_execution store h execution_id contexts output_artifacts
                    executor_output) = Inr ()
             \<and> get_executions_by_id
                  (snd (snd (publish_succeeded_execution store h execution_id contexts
                               output_artifacts executor_output)))
                  [execution_id] = [x\<lparr>exec_last_known_state := COMPLETE\<rparr>]"
      if "fst (merge_executor_output h executor_output
                 (case output_artifacts of None \<Rightarrow> [] | Some m \<Rightarrow> m)) = Inr ()"
    proof -
      obtain r h1 where m: "merge_executor_output h executor_output
                              (case output_artifacts of None \<Rightarrow> [] | Some m \<Rightarrow> m) = (r, h1)"
        by (cases "merge_executor_output h executor_output
                     (case output_artifacts of None \<Rightarrow> [] | Some m \<Rightarrow> m)")
      with that have "r = Inr ()" by simp
      with m u upd show ?thesis by (simp add: publish_succeeded_execution_def Let_def)
    qed
    from c f f2 i s show ?thesis by blast
  qed
  from r1 r1b r2 r3 r4 P show ?thesis by blast
qed

theorem C9_states_witness:
  "get_executions_by_id scenario_store [1]
     = [\<lparr>exec_id = Some 1, exec_type = \<lparr>et_name = ''Trainer''\<rparr>,
         exec_last_known_state = RUNNING, exec_properties = []\<rparr>]
   \<and> register_execution
        \<lparr>store_executions = [], store_artifacts = [], store_events = [],
         store_associations = [], store_attributions = []\<rparr>
        scenario_heap \<lparr>et_name = ''Trainer''\<rparr> scenario_contexts None None
     = (\<lparr>exec_id = Some 1, exec_type = \<lparr>et_name = ''Trainer''\<rparr>,
         exec_last_known_state = RUNNING, exec_properties = []\<rparr>,
        \<lparr>store_executions =
           [\<lparr>exec_id = Some 1, exec_type = \<lparr>et_name = ''Trainer''\<rparr>,
             exec_last_known_state = RUNNING, exec_properties = []\<rparr>],
         store_artifacts = [], store_events = [],
         store_associations = [(10, 1)], store_attributions = []\<rparr>)
   \<and> exec_last_known_state
       (fst (register_execution scenario_store scenario_heap \<lparr>et_name = ''Trainer''\<rparr>
               scenario_contexts (Some [(''examples'', [0])]) None)) = RUNNING
   \<and> exec_id (fst (register_execution scenario_store scenario_heap \<lparr>et_name = ''Trainer''\<rparr>
               scenario_contexts (Some [(''examples'', [0])]) None)) = Some 2
   \<and> map exec_last_known_state
       (get_executions_by_id
          (snd (register_execution scenario_store scenario_heap \<lparr>et_name = ''Trainer''\<rparr>
                  scenario_contexts (Some [(''examples'', [0])]) None)) [2]) = [RUNNING]
   \<and> map exec_last_known_state
       (get_executions_by_id
          (snd (publish_cached_execution scenario_store scenario_heap scenario_contexts 1
                  (Some [(''model'', [0])]))) [1]) = [CACHED]
   \<and> map exec_last_known_state
       (get_executions_by_id
          (snd (publish_failed_execution scenario_store scenario_heap scenario_contexts 1))
          [1]) = [FAILED]
   \<and> store_events (snd (publish_failed_execution scenario_store scenario_heap
                           scenario_contexts 1)) = []
   \<and> map exec_last_known_state
       (get_executions_by_id
          (snd (publish_internal_execution scenario_store scenario_heap scenario_contexts 1
                  (Some [(''model'', [0])]))) [1]) = [COMPLETE]
   \<and> fst (merge_executor_output scenario_heap None [(''model'', [0])]) = Inr ()
   \<and> map exec_last_known_state
       (get_executions_by_id
          (snd (snd (publish_succeeded_execution scenario_store scenario_heap 1
                       scenario_contexts (Some [(''model'', [0])]) None))) [1]) = [COMPLETE]"
proof -
  have g: "get_executions_by_id scenario_store [1]
     = [\<lparr>exec_id = Some 1, exec_type = \<lparr>et_name = ''Trainer''\<rparr>,
         exec_last_known_state = RUNNING, exec_properties = []\<rparr>]"
    by (simp add: get_executions_by_id_def scenario_store_def)
  have m: "fst (merge_executor_output scenario_heap None [(''model'', [0])]) = Inr ()"
    by (simp add: merge_executor_output_def)
  have id: "exec_id (fst (register_execution scenario_store scenario_heap
               \<lparr>et_name = ''Trainer''\<rparr> scenario_contexts (Some [(''examples'', [0])]) None))
            = Some 2"
    by (simp add: register_execution_def put_execution_returns prepare_execution_def
          upsert_execution_def execution_ids_def fresh_id_def scenario_store_def Let_def)
  have e: "register_execution
        \<lparr>store_executions = [], store_artifacts = [], store_events = [],
         store_associations = [], store_attributions = []\<rparr>
        scenario_heap \<lparr>et_name = ''Trainer''\<rparr> scenario_contexts None None
     = (\<lparr>exec_id = Some 1, exec_type = \<lparr>et_name = ''Trainer''\<rparr>,
         exec_last_known_state = RUNNING, exec_properties = []\<rparr>,
        \<lparr>store_executions =
           [\<lparr>exec_id = Some 1, exec_type = \<lparr>et_name = ''Trainer''\<rparr>,
             exec_last_known_state = RUNNING, exec_properties = []\<rparr>],
         store_artifacts = [], store_events = [],
         store_associations = [(10, 1)], store_attributions = []\<rparr>)"
    by (simp add: publish_defs scenario_defs Let_def)
  from C9_states [where store = scenario_store and execution_id = 1 and h = scenario_heap
      and contexts = scenario_contexts
      and output_artifacts = "Some [(''model'', [0])]" and executor_output = None
      and execution_type = "\<lparr>et_name = ''Trainer''\<rparr>"
      and input_artifacts = "Some [(''examples'', [0])]" and exec_props = None] g m id e
  show ?thesis by (simp add: scenario_store_def)
qed

text \<open>
  C8, as stated, does not hold: \<^verbatim>\<open>publish_internal_execution\<close> has no loop that marks
  the artifacts. Publishing the pending artifact 0 as an internal output stores it with state
  \<open>PENDING\<close>, where \<^verbatim>\<open>publish_succeeded_execution\<close> stores it with state
  \<open>LIVE\<close>.
\<close>

theorem C8_counterexample:
  "fst (publish_internal_execution scenario_store scenario_heap scenario_contexts 1
          (Some [(''meta'', [0])])) = Inr ()
   \<and> map art_state
        (store_artifacts
           (snd (publish_internal_execution scenario_store scenario_heap scenario_contexts 1
                   (Some [(''meta'', [0])])))) = [PENDING]
   \<and> map art_state
        (store_artifacts
           (snd (snd (publish_succeeded_execution scenario_store scenario_heap 1
                        scenario_contexts (Some [(''meta'', [0])]) None)))) = [LIVE]"
  by (simp add: publish_defs scenario_defs)

text \<open>
  C8, amended. With \<^verbatim>\<open>put_execution\<close> as the specification describes it, on a store
  where the id resolves to exactly one execution \<open>x\<close>,
  \<^verbatim>\<open>publish_internal_execution\<close> returns, leaves \<open>x\<close> with state \<open>COMPLETE\<close>
  under that id, and adds one event per output artifact, each of type \<open>INTERNAL_OUTPUT\<close>
  and for that execution. It takes no executor output and marks nothing \<open>LIVE\<close>: every
  artifact record of the store is an old one or the message of an output artifact as the
  artifact has it (up to the id the store assigns), and the record that the \<open>k\<close>-th new
  event links is the message of the \<open>k\<close>-th output artifact, state included, unless a
  later output artifact carries the same id and has replaced it. It is the success path
  without executor output, less the marking and with the other event type: called on the
  artifacts as the marking leaves them, it leaves the store that
  \<^verbatim>\<open>publish_succeeded_execution\<close> without executor output leaves, with the type of
  the new events changed to \<open>INTERNAL_OUTPUT\<close>; so also when every output artifact is
  \<open>LIVE\<close> already.
\<close>

theorem C8_internal_output:
  assumes found: "get_executions_by_id store [execution_id] = [x]"
  shows "fst (publish_internal_execution store h contexts execution_id output_artifacts)
           = Inr ()
       \<and> get_executions_by_id
            (snd (publish_internal_execution store h contexts execution_id output_artifacts))
            [execution_id] = [x\<lparr>exec_last_known_state := COMPLETE\<rparr>]
       \<and> take (length (store_events store))
            (store_events
               (snd (publish_internal_execution store h contexts execution_id
                       output_artifacts))) = store_events store
       \<and> length (store_events
                   (snd (publish_internal_execution store h contexts execution_id
                           output_artifacts)))
           = length (store_events store)
             + length (artifact_objects
                         (case output_artifacts of None \<Rightarrow> [] | Some m \<Rightarrow> m))
       \<and> list_all (\<lambda>ev. ev_type ev = INTERNAL_OUTPUT \<and> ev_execution_id ev = execution_id)
            (drop (length (store_events store))
               (store_events
                  (snd (publish_internal_execution store h contexts execution_id
                          output_artifacts))))
       \<and> (\<forall>r \<in> set (store_artifacts
                       (snd (publish_internal_execution store h contexts execution_id
                               output_artifacts))).
            r \<in> set (store_artifacts store)
            \<or> (\<exists>a \<in> set (artifact_objects
                              (case output_artifacts of None \<Rightarrow> [] | Some m \<Rightarrow> m)).
                  r = (h a)\<lparr>art_id := art_id r\<rparr>))
       \<and> (\<forall>k < length (artifact_objects
                          (case output_artifacts of None \<Rightarrow> [] | Some m \<Rightarrow> m)).
            (\<forall>l < length (artifact_objects
                             (case output_artifacts of None \<Rightarrow> [] | Some m \<Rightarrow> m)).
               k < l \<longrightarrow>
               art_id (h (artifact_objects
                            (case output_artifacts of None \<Rightarrow> [] | Some m \<Rightarrow> m) ! l))
               \<noteq> Some (ev_artifact_id
                          (store_events
                             (snd (publish_internal_execution store h contexts execution_id
                                     output_artifacts))
                           ! (length (store_events store) + k))))
            \<longrightarrow> (h (artifact_objects
                       (case output_artifacts of None \<Rightarrow> [] | Some m \<Rightarrow> m) ! k))
                  \<lparr>art_id :=
                     Some (ev_artifact_id
                             (store_events
                                (snd (publish_internal_execution store h contexts
                                        execution_id output_artifacts))
                              ! (length (store_events store) + k)))\<rparr>
                \<in> set (store_artifacts
                         (snd (publish_internal_execution store h contexts execution_id
                                 output_artifacts))))
       \<and> snd (publish_internal_execution store
                 (mark_live h (case output_artifacts of None \<Rightarrow> [] | Some m \<Rightarrow> m))
                 contexts execution_id output_artifacts)
           = (snd (snd (publish_succeeded_execution store h execution_id contexts
                          output_artifacts None)))
             \<lparr>store_events := store_events store
                @ map (\<lambda>ev. ev\<lparr>ev_type := INTERNAL_OUTPUT\<rparr>)
                    (drop (length (store_events store))
                       (store_events
                          (snd (snd (publish_succeeded_execution store h execution_id
                                       contexts output_artifacts None)))))\<rparr>
       \<and> ((\<forall>a \<in> set (artifact_objects
                        (case output_artifacts of None \<Rightarrow> [] | Some m \<Rightarrow> m)).
              art_state (h a) = LIVE)
          \<longrightarrow> snd (publish_internal_execution store h contexts execution_id output_artifacts)
              = (snd (snd (publish_succeeded_execution store h execution_id contexts
                             output_artifacts None)))
                \<lparr>store_events := store_events store
                   @ map (\<lambda>ev. ev\<lparr>ev_type := INTERNAL_OUTPUT\<rparr>)
                       (drop (length (store_events store))
                          (store_events
                             (snd (snd (publish_succeeded_execution store h execution_id
                                          contexts output_artifacts None)))))\<rparr>)"
proof -
  let ?m = "case output_artifacts of None \<Rightarrow> [] | Some m \<Rightarrow> m"
  let ?e = "x\<lparr>exec_last_known_state := COMPLETE\<rparr>"
  let ?s = "snd (publish_internal_execution store h contexts execution_id output_artifacts)"
  let ?ids = "fst (put_artifacts (store_artifacts store) (artifacts_of h output_artifacts))"
  from found have u: "unpack_single (get_executions_by_id store [execution_id]) = Inr x"
    by (simp add: unpack_single_Inr)
  from found have xid: "exec_id ?e = Some execution_id"
    using found_execution(1) [OF found] by simp
  from found have known: "execution_id \<in> set (execution_ids (store_executions store))"
    by (rule found_execution(2))
  have ue: "fst (upsert_execution (store_executions store) ?e) = ?e"
    using known xid by (rule upsert_execution_known)
  have s: "snd (publish_internal_execution store h' contexts execution_id output_artifacts)
             = snd (put_execution store h' ?e contexts None output_artifacts INTERNAL_OUTPUT)"
    for h'
    using u by (simp add: publish_internal_execution_def)
  have 1: "fst (publish_internal_execution store h contexts execution_id output_artifacts)
             = Inr ()"
    using u by (simp add: publish_internal_execution_def)
  have 2: "get_executions_by_id ?s [execution_id] = [?e]"
    unfolding s using found xid by (rule put_execution_updates)
  have ev: "store_events ?s
              = store_events store
                @ map (\<lambda>a. \<lparr>ev_artifact_id = a, ev_execution_id = execution_id,
                             ev_type = INTERNAL_OUTPUT\<rparr>) ?ids"
    unfolding s put_execution_no_inputs ue using xid by simp
  have len: "length ?ids = length (artifact_objects ?m)"
    by (simp add: put_artifacts_length artifacts_of_objects)
  have 3: "take (length (store_events store)) (store_events ?s) = store_events store"
    unfolding ev by simp
  have 4: "length (store_events ?s)
             = length (store_events store) + length (artifact_objects ?m)"
    unfolding ev using len by simp
  have 5: "list_all (\<lambda>ev. ev_type ev = INTERNAL_OUTPUT \<and> ev_execution_id ev = execution_id)
             (drop (length (store_events store)) (store_events ?s))"
    unfolding ev by (simp add: list_all_iff)
  have ar: "store_artifacts ?s
              = snd (put_artifacts (store_artifacts store) (artifacts_of h output_artifacts))"
    unfolding s put_execution_no_inputs by simp
  have 6: "r \<in> set (store_artifacts store)
           \<or> (\<exists>a \<in> set (artifact_objects ?m). r = (h a)\<lparr>art_id := art_id r\<rparr>)"
    if "r \<in> set (store_artifacts ?s)" for r
    using put_artifacts_records [of r "store_artifacts store" "artifacts_of h output_artifacts"]
      that
    by (auto simp: ar artifacts_of_objects)
  have evk: "ev_artifact_id (store_events ?s ! (length (store_events store) + k)) = ?ids ! k"
    if "k < length (artifact_objects ?m)" for k
    unfolding ev using that len by (simp add: nth_append)
  have p6: "(h (artifact_objects ?m ! k))
              \<lparr>art_id := Some (ev_artifact_id
                                 (store_events ?s ! (length (store_events store) + k)))\<rparr>
            \<in> set (store_artifacts ?s)"
    if k: "k < length (artifact_objects ?m)"
      and later: "\<forall>l < length (artifact_objects ?m). k < l \<longrightarrow>
                    art_id (h (artifact_objects ?m ! l))
                    \<noteq> Some (ev_artifact_id
                               (store_events ?s ! (length (store_events store) + k)))"
    for k
  proof -
    let ?as = "artifacts_of h output_artifacts"
    have as: "?as = map h (artifact_objects ?m)" by (rule artifacts_of_objects)
    have kl: "k < length ?as" using k by (simp add: as)
    have "art_id (?as ! l) \<noteq> Some (?ids ! k)" if "k < l" "l < length ?as" for l
      using later that evk [OF k] by (simp add: as)
    with kl have "(?as ! k)\<lparr>art_id := Some (?ids ! k)\<rparr>
                    \<in> set (snd (put_artifacts (store_artifacts store) ?as))"
      by (rule put_artifacts_persisted)
    with k show ?thesis by (simp add: ar evk [OF k] as)
  qed
  have 7: "snd (publish_internal_execution store h' contexts execution_id output_artifacts)
           = (snd (snd (publish_succeeded_execution store h execution_id contexts
                             output_artifacts None)))
                \<lparr>store_events := store_events store
                   @ map (\<lambda>ev. ev\<lparr>ev_type := INTERNAL_OUTPUT\<rparr>)
                       (drop (length (store_events store))
                          (store_events
                             (snd (snd (publish_succeeded_execution store h execution_id
                                          contexts output_artifacts None)))))\<rparr>"
    if ml: "mark_live h ?m = h'" for h'
  proof -
    have "snd (snd (publish_succeeded_execution store h execution_id contexts
                      output_artifacts None))
            = snd (put_execution store h' ?e contexts None (Some ?m) OUTPUT)"
      using u by (simp add: publish_succeeded_execution_def merge_executor_output_def ml)
    then show ?thesis
      unfolding s put_execution_no_inputs artifacts_of_default by simp
  qed
  have 8: "snd (publish_internal_execution store h contexts execution_id output_artifacts)
           = (snd (snd (publish_succeeded_execution store h execution_id contexts
                             output_artifacts None)))
                \<lparr>store_events := store_events store
                   @ map (\<lambda>ev. ev\<lparr>ev_type := INTERNAL_OUTPUT\<rparr>)
                       (drop (length (store_events store))
                          (store_events
                             (snd (snd (publish_succeeded_execution store h execution_id
                                          contexts output_artifacts None)))))\<rparr>"
    if live: "\<forall>a \<in> set (artifact_objects ?m). art_state (h a) = LIVE"
  proof -
    have "mark_live h ?m = h" using live by (rule mark_live_already)
    then show ?thesis by (rule 7)
  qed
  from 1 2 3 4 5 6 p6 7 [OF refl] 8 show ?thesis by blast
qed

theorem C8_internal_output_witness:
  "get_executions_by_id scenario_store [1]
     = [\<lparr>exec_id = Some 1, exec_type = \<lparr>et_name = ''Trainer''\<rparr>,
         exec_last_known_state = RUNNING, exec_properties = []\<rparr>]
   \<and> fst (publish_internal_execution scenario_store scenario_heap scenario_contexts 1
            (Some [(''meta'', [0])])) = Inr ()
   \<and> map exec_last_known_state
        (get_executions_by_id
           (snd (publish_internal_execution scenario_store scenario_heap scenario_contexts 1
                   (Some [(''meta'', [0])]))) [1]) = [COMPLETE]
   \<and> length (store_events
               (snd (publish_internal_execution scenario_store scenario_heap
                       scenario_contexts 1 (Some [(''meta'', [0])])))) = 1
   \<and> list_all (\<lambda>ev. ev_type ev = INTERNAL_OUTPUT \<and> ev_execution_id ev = 1)
        (store_events
           (snd (publish_internal_execution scenario_store scenario_heap scenario_contexts 1
                   (Some [(''meta'', [0])]))))
   \<and> ev_artifact_id
        (store_events
           (snd (publish_internal_execution scenario_store scenario_heap scenario_contexts 1
                   (Some [(''meta'', [0])]))) ! 0) = 7
   \<and> example_artifact (Some 7) 5 ''/tmp/m1'' PENDING
       \<in> set (store_artifacts
                (snd (publish_internal_execution scenario_store scenario_heap
                        scenario_contexts 1 (Some [(''meta'', [0])]))))
   \<and> snd (publish_internal_execution scenario_store
             (mark_live scenario_heap [(''meta'', [0])])
             scenario_contexts 1 (Some [(''meta'', [0])]))
     = (snd (snd (publish_succeeded_execution scenario_store scenario_heap
                    1 scenario_contexts (Some [(''meta'', [0])]) None)))
       \<lparr>store_events :=
          [\<lparr>ev_artifact_id = 7, ev_execution_id = 1, ev_type = INTERNAL_OUTPUT\<rparr>]\<rparr>
   \<and> artifact_objects [(''meta'', [0::nat])] = [0]
   \<and> art_state ((scenario_heap(0 := example_artifact (Some 7) 5 ''/tmp/m1'' LIVE)) 0) = LIVE
   \<and> snd (publish_internal_execution scenario_store
             (scenario_heap(0 := example_artifact (Some 7) 5 ''/tmp/m1'' LIVE))
             scenario_contexts 1 (Some [(''meta'', [0])]))
     = (snd (snd (publish_succeeded_execution scenario_store
                    (scenario_heap(0 := example_artifact (Some 7) 5 ''/tmp/m1'' LIVE))
                    1 scenario_contexts (Some [(''meta'', [0])]) None)))
       \<lparr>store_events :=
          [\<lparr>ev_artifact_id = 7, ev_execution_id = 1, ev_type = INTERNAL_OUTPUT\<rparr>]\<rparr>"
proof -
  let ?live = "scenario_heap(0 := example_artifact (Some 7) 5 ''/tmp/m1'' LIVE)"
  have g: "get_executions_by_id scenario_store [1]
     = [\<lparr>exec_id = Some 1, exec_type = \<lparr>et_name = ''Trainer''\<rparr>,
         exec_last_known_state = RUNNING, exec_properties = []\<rparr>]"
    by (simp add: get_executions_by_id_def scenario_store_def)
  have l: "\<forall>a \<in> set (artifact_objects [(''meta'', [0::nat])]). art_state (?live a) = LIVE"
    by (simp add: artifact_objects_def example_artifact_def)
  have ev: "store_events
              (snd (snd (publish_succeeded_execution scenario_store ?live
                    1 scenario_contexts (Some [(''meta'', [0])]) None)))
            = [\<lparr>ev_artifact_id = 7, ev_execution_id = 1, ev_type = OUTPUT\<rparr>]"
    by (simp add: publish_defs scenario_defs)
  have ev2: "store_events
              (snd (snd (publish_succeeded_execution scenario_store scenario_heap
                    1 scenario_contexts (Some [(''meta'', [0])]) None)))
            = [\<lparr>ev_artifact_id = 7, ev_execution_id = 1, ev_type = OUTPUT\<rparr>]"
    by (simp add: publish_defs scenario_defs)
  have i7: "ev_artifact_id
        (store_events
           (snd (publish_internal_execution scenario_store scenario_heap scenario_contexts 1
                   (Some [(''meta'', [0])]))) ! 0) = 7"
    by (simp add: publish_defs scenario_defs)
  have h0: "scenario_heap 0 = example_artifact (Some 7) 5 ''/tmp/m1'' PENDING"
    by (simp add: scenario_heap_def)
  from C8_internal_output [OF g, where h = scenario_heap and contexts = scenario_contexts
      and output_artifacts = "Some [(''meta'', [0])]"] i7 h0 ev2
  have a: "fst (publish_internal_execution scenario_store scenario_heap scenario_contexts 1
            (Some [(''meta'', [0])])) = Inr ()"
    and b: "map exec_last_known_state
        (get_executions_by_id
           (snd (publish_internal_execution scenario_store scenario_heap scenario_contexts 1
                   (Some [(''meta'', [0])]))) [1]) = [COMPLETE]"
    and c: "length (store_events
               (snd (publish_internal_execution scenario_store scenario_heap
                       scenario_contexts 1 (Some [(''meta'', [0])])))) = 1"
    and d: "list_all (\<lambda>ev. ev_type ev = INTERNAL_OUTPUT \<and> ev_execution_id ev = 1)
        (store_events
           (snd (publish_internal_execution scenario_store scenario_heap scenario_contexts 1
                   (Some [(''meta'', [0])]))))"
    and p: "example_artifact (Some 7) 5 ''/tmp/m1'' PENDING
       \<in> set (store_artifacts
                (snd (publish_internal_execution scenario_store scenario_heap
                        scenario_contexts 1 (Some [(''meta'', [0])]))))"
    and m: "snd (publish_internal_execution scenario_store
             (mark_live scenario_heap [(''meta'', [0])])
             scenario_contexts 1 (Some [(''meta'', [0])]))
     = (snd (snd (publish_succeeded_execution scenario_store scenario_heap
                    1 scenario_contexts (Some [(''meta'', [0])]) None)))
       \<lparr>store_events :=
          [\<lparr>ev_artifact_id = 7, ev_execution_id = 1, ev_type = INTERNAL_OUTPUT\<rparr>]\<rparr>"
    by (simp_all add: scenario_store_def artifact_objects_def example_artifact_def)
  from C8_internal_output [OF g, where h = ?live
      and contexts = scenario_contexts and output_artifacts = "Some [(''meta'', [0])]"] l ev
  have e: "snd (publish_internal_execution scenario_store ?live
             scenario_contexts 1 (Some [(''meta'', [0])]))
     = (snd (snd (publish_succeeded_execution scenario_store ?live
                    1 scenario_contexts (Some [(''meta'', [0])]) None)))
       \<lparr>store_events :=
          [\<lparr>ev_artifact_id = 7, ev_execution_id = 1, ev_type = INTERNAL_OUTPUT\<rparr>]\<rparr>"
    by (simp add: scenario_store_def)
  have o: "artifact_objects [(''meta'', [0::nat])] = [0]"
    by (simp add: artifact_objects_def)
  have l0: "art_state (?live 0) = LIVE"
    by (simp add: example_artifact_def)
  from g a b c d i7 p m o l0 e show ?thesis by blast
qed

end
